theory Spec2Isabelle
  imports Main
begin

section \<open>Errors and the relational store\<close>

text \<open>
  Every \<^verbatim>\<open>throw\<close> of the TypeScript source is a value of \<open>error\<close>:
  \<^item> \<open>Error msg\<close> is \<^verbatim>\<open>new Error(msg)\<close> raised by the repository or provider itself;
  \<^item> \<open>BackendError msg\<close> is the error object a Supabase call reports in its \<^verbatim>\<open>error\<close> field;
  \<^item> \<open>ConstraintError col\<close> is what the SQLite driver raises when a statement would
    break the primary key declared in \<^verbatim>\<open>schema.ts\<close> (\<^verbatim>\<open>text('id').primaryKey()\<close>).
\<close>

datatype error = Error string | BackendError string | ConstraintError string

type_synonym timestamp = string

text \<open>
  A table is the list of its rows, in insertion order. The three statements the repositories
  issue through Drizzle are modelled over any row type, given the primary-key column \<open>key\<close>:
  \<^item> \<^verbatim>\<open>db.query.T.findFirst({ where })\<close> is the first row that satisfies the condition;
  \<^item> \<^verbatim>\<open>db.insert(T).values(row)\<close> appends the row, and is rejected when the key is taken;
  \<^item> \<^verbatim>\<open>db.update(T).set(s).where(w)\<close> rewrites every row that satisfies \<open>w\<close>. SQLite checks
    the key only where the statement changes it: a statement that leaves every key as it
    was is accepted, one that changes keys must leave them distinct, and a rejected
    statement changes nothing.

  \<open>pk_ok\<close> is the invariant the primary key maintains: no two rows hold the same key.
\<close>

definition findFirst :: "('r \<Rightarrow> bool) \<Rightarrow> 'r list \<Rightarrow> 'r option" where
  "findFirst wh rows = List.find wh rows"

definition sql_insert :: "('r \<Rightarrow> string) \<Rightarrow> 'r \<Rightarrow> 'r list \<Rightarrow> error + 'r list" where
  "sql_insert key row rows =
     (if key row \<in> set (map key rows) then Inl (ConstraintError ''id'')
      else Inr (rows @ [row]))"

definition sql_update ::
  "('r \<Rightarrow> string) \<Rightarrow> ('r \<Rightarrow> bool) \<Rightarrow> ('r \<Rightarrow> 'r) \<Rightarrow> 'r list \<Rightarrow> error + 'r list" where
  "sql_update key wh st rows =
     (let rows' = map (\<lambda>r. if wh r then st r else r) rows
      in if map key rows' = map key rows \<or> distinct (map key rows') then Inr rows'
         else Inl (ConstraintError ''id''))"

definition pk_ok :: "('r \<Rightarrow> string) \<Rightarrow> 'r list \<Rightarrow> bool" where
  "pk_ok key rows = distinct (map key rows)"

section \<open>Projects: rows, domain objects and mappers\<close>

text \<open>The \<^verbatim>\<open>projects\<close> table of \<^verbatim>\<open>schema.ts\<close> (\<^verbatim>\<open>ProjectRow\<close>).\<close>

record project_row =
  pr_id :: string
  pr_workspaceId :: string
  pr_userId :: string
  pr_name :: string
  pr_description :: "string option"
  pr_color :: "string option"
  pr_completionPercentage :: int
  pr_createdAt :: timestamp
  pr_updatedAt :: timestamp
  pr_deleted :: bool

text \<open>The domain type \<^verbatim>\<open>Project\<close>, as \<^verbatim>\<open>toDomain\<close> builds it.\<close>

record project =
  p_id :: string
  p_workspaceId :: string
  p_userId :: string
  p_name :: string
  p_description :: "string option"
  p_color :: "string option"
  p_completionPercentage :: int

text \<open>\<^verbatim>\<open>Omit<Project, 'id'>\<close>, the argument of \<^verbatim>\<open>create\<close>.\<close>

record project_input =
  pi_workspaceId :: string
  pi_userId :: string
  pi_name :: string
  pi_description :: "string option"
  pi_color :: "string option"
  pi_completionPercentage :: int

text \<open>\<^verbatim>\<open>Omit<NewProjectRow, 'id'>\<close>, the result of \<^verbatim>\<open>toDbInsert\<close>.\<close>

record new_project_row =
  npr_workspaceId :: string
  npr_userId :: string
  npr_name :: string
  npr_description :: "string option"
  npr_color :: "string option"
  npr_completionPercentage :: int
  npr_createdAt :: timestamp
  npr_updatedAt :: timestamp
  npr_deleted :: bool

text \<open>
  \<^verbatim>\<open>Partial<Project>\<close>: every property may be absent (\<open>None\<close>). A nullable column that is
  present carries \<open>Some None\<close> for \<^verbatim>\<open>null\<close>. The type includes \<^verbatim>\<open>id\<close>.
\<close>

record project_partial =
  pp_id :: "string option"
  pp_workspaceId :: "string option"
  pp_userId :: "string option"
  pp_name :: "string option"
  pp_description :: "string option option"
  pp_color :: "string option option"
  pp_completionPercentage :: "int option"

text \<open>\<^verbatim>\<open>Partial<ProjectRow>\<close>, the result of \<^verbatim>\<open>toDbUpdate\<close> and the argument of \<^verbatim>\<open>.set\<close>.\<close>

record project_row_partial =
  ppr_id :: "string option"
  ppr_workspaceId :: "string option"
  ppr_userId :: "string option"
  ppr_name :: "string option"
  ppr_description :: "string option option"
  ppr_color :: "string option option"
  ppr_completionPercentage :: "int option"
  ppr_createdAt :: "timestamp option"
  ppr_updatedAt :: "timestamp option"
  ppr_deleted :: "bool option"

definition project_toDomain :: "project_row \<Rightarrow> project" where
  "project_toDomain row =
     \<lparr> p_id = pr_id row,
       p_workspaceId = pr_workspaceId row,
       p_userId = pr_userId row,
       p_name = pr_name row,
       p_description = pr_description row,
       p_color = pr_color row,
       p_completionPercentage = pr_completionPercentage row \<rparr>"

text \<open>
  \<^verbatim>\<open>toDbInsert\<close> and \<^verbatim>\<open>toDbUpdate\<close> call \<^verbatim>\<open>now()\<close> of \<^verbatim>\<open>db/utils\<close>, which is not among the
  sources: the clock reading is the first argument of the model.
\<close>

definition project_toDbInsert :: "timestamp \<Rightarrow> project_input \<Rightarrow> new_project_row" where
  "project_toDbInsert timestamp project =
     \<lparr> npr_workspaceId = pi_workspaceId project,
       npr_userId = pi_userId project,
       npr_name = pi_name project,
       npr_description = pi_description project,
       npr_color = pi_color project,
       npr_completionPercentage = pi_completionPercentage project,
       npr_createdAt = timestamp,
       npr_updatedAt = timestamp,
       npr_deleted = False \<rparr>"

definition project_toDbUpdate :: "timestamp \<Rightarrow> project_partial \<Rightarrow> project_row_partial" where
  "project_toDbUpdate timestamp project =
     \<lparr> ppr_id = pp_id project,
       ppr_workspaceId = pp_workspaceId project,
       ppr_userId = pp_userId project,
       ppr_name = pp_name project,
       ppr_description = pp_description project,
       ppr_color = pp_color project,
       ppr_completionPercentage = pp_completionPercentage project,
       ppr_createdAt = None,
       ppr_updatedAt = Some timestamp,
       ppr_deleted = None \<rparr>"

text \<open>\<^verbatim>\<open>{ id, ...dbProject }\<close>: the row handed to \<^verbatim>\<open>insert\<close>.\<close>

definition project_insert_row :: "string \<Rightarrow> new_project_row \<Rightarrow> project_row" where
  "project_insert_row i n =
     \<lparr> pr_id = i,
       pr_workspaceId = npr_workspaceId n,
       pr_userId = npr_userId n,
       pr_name = npr_name n,
       pr_description = npr_description n,
       pr_color = npr_color n,
       pr_completionPercentage = npr_completionPercentage n,
       pr_createdAt = npr_createdAt n,
       pr_updatedAt = npr_updatedAt n,
       pr_deleted = npr_deleted n \<rparr>"

text \<open>\<^verbatim>\<open>.set(values)\<close> on one row: a column is written when its property is present.\<close>

definition project_set :: "project_row_partial \<Rightarrow> project_row \<Rightarrow> project_row" where
  "project_set s r =
     \<lparr> pr_id = (case ppr_id s of None \<Rightarrow> pr_id r | Some v \<Rightarrow> v),
       pr_workspaceId = (case ppr_workspaceId s of None \<Rightarrow> pr_workspaceId r | Some v \<Rightarrow> v),
       pr_userId = (case ppr_userId s of None \<Rightarrow> pr_userId r | Some v \<Rightarrow> v),
       pr_name = (case ppr_name s of None \<Rightarrow> pr_name r | Some v \<Rightarrow> v),
       pr_description = (case ppr_description s of None \<Rightarrow> pr_description r | Some v \<Rightarrow> v),
       pr_color = (case ppr_color s of None \<Rightarrow> pr_color r | Some v \<Rightarrow> v),
       pr_completionPercentage =
         (case ppr_completionPercentage s of None \<Rightarrow> pr_completionPercentage r | Some v \<Rightarrow> v),
       pr_createdAt = (case ppr_createdAt s of None \<Rightarrow> pr_createdAt r | Some v \<Rightarrow> v),
       pr_updatedAt = (case ppr_updatedAt s of None \<Rightarrow> pr_updatedAt r | Some v \<Rightarrow> v),
       pr_deleted = (case ppr_deleted s of None \<Rightarrow> pr_deleted r | Some v \<Rightarrow> v) \<rparr>"

section \<open>ProjectRepository\<close>

text \<open>
  The handle \<^verbatim>\<open>db\<close> is the state. A method that writes returns its outcome together with
  the state it leaves behind, so that an error raised after a write keeps the write.
\<close>

type_synonym projects_db = "project_row list"

definition project_findById :: "projects_db \<Rightarrow> string \<Rightarrow> project option" where
  "project_findById db i =
     (case findFirst (\<lambda>r. pr_id r = i \<and> pr_deleted r = False) db of
        None \<Rightarrow> None
      | Some row \<Rightarrow> Some (project_toDomain row))"

text \<open>
  \<^verbatim>\<open>create\<close>. \<open>new_id\<close> is what \<^verbatim>\<open>generateId()\<close> returned, \<open>ts\<close> what \<^verbatim>\<open>now()\<close> returned.
  The handle is injected by the caller: \<open>reread\<close> is what \<^verbatim>\<open>this.findById(db, id)\<close> resolves to
  on it after the insert. \<open>project_create\<close> is \<^verbatim>\<open>create\<close> on the store of this theory, where
  the re-read is \<open>project_findById\<close>.
\<close>

definition project_create_on ::
  "(projects_db \<Rightarrow> string \<Rightarrow> project option) \<Rightarrow> string \<Rightarrow> timestamp \<Rightarrow> projects_db
     \<Rightarrow> project_input \<Rightarrow> (error + project) \<times> projects_db" where
  "project_create_on reread new_id ts db project =
     (let dbProject = project_toDbInsert ts project
      in case sql_insert pr_id (project_insert_row new_id dbProject) db of
           Inl e \<Rightarrow> (Inl e, db)
         | Inr db' \<Rightarrow>
             (case reread db' new_id of
                None \<Rightarrow> (Inl (Error ''Failed to create project''), db')
              | Some created \<Rightarrow> (Inr created, db')))"

definition project_create ::
  "string \<Rightarrow> timestamp \<Rightarrow> projects_db \<Rightarrow> project_input \<Rightarrow> (error + project) \<times> projects_db" where
  "project_create new_id ts db project = project_create_on project_findById new_id ts db project"

definition project_update ::
  "timestamp \<Rightarrow> projects_db \<Rightarrow> string \<Rightarrow> project_partial \<Rightarrow> (error + project) \<times> projects_db" where
  "project_update ts db i updates =
     (let dbUpdates = project_toDbUpdate ts updates
      in case sql_update pr_id (\<lambda>r. pr_id r = i \<and> pr_deleted r = False) (project_set dbUpdates) db of
           Inl e \<Rightarrow> (Inl e, db)
         | Inr db' \<Rightarrow>
             (case project_findById db' i of
                None \<Rightarrow> (Inl (Error ''Project not found or was deleted''), db')
              | Some updated \<Rightarrow> (Inr updated, db')))"

text \<open>\<^verbatim>\<open>.set({ deleted: true, updatedAt: now() })\<close>.\<close>

definition project_delete_set :: "timestamp \<Rightarrow> project_row_partial" where
  "project_delete_set ts =
     \<lparr> ppr_id = None, ppr_workspaceId = None, ppr_userId = None, ppr_name = None,
       ppr_description = None, ppr_color = None, ppr_completionPercentage = None,
       ppr_createdAt = None, ppr_updatedAt = Some ts, ppr_deleted = Some True \<rparr>"

definition project_delete ::
  "timestamp \<Rightarrow> projects_db \<Rightarrow> string \<Rightarrow> (error + unit) \<times> projects_db" where
  "project_delete ts db i =
     (case sql_update pr_id (\<lambda>r. pr_id r = i) (project_set (project_delete_set ts)) db of
        Inl e \<Rightarrow> (Inl e, db)
      | Inr db' \<Rightarrow> (Inr (), db'))"

text \<open>A direct query that ignores the delete flag: \<^verbatim>\<open>where: eq(projects.id, id)\<close>.\<close>

definition project_row_by_id :: "projects_db \<Rightarrow> string \<Rightarrow> project_row option" where
  "project_row_by_id db i = findFirst (\<lambda>r. pr_id r = i) db"

text \<open>
  A one-property update \<^verbatim>\<open>{ field: v }\<close>, as an object literal of type \<^verbatim>\<open>Partial<Project>\<close>,
  and what the specification expects of it: the row with that one column replaced.
\<close>

datatype project_field =
    Set_id string
  | Set_workspaceId string
  | Set_userId string
  | Set_name string
  | Set_description "string option"
  | Set_color "string option"
  | Set_completionPercentage int

definition no_updates :: project_partial where
  "no_updates =
     \<lparr> pp_id = None, pp_workspaceId = None, pp_userId = None, pp_name = None,
       pp_description = None, pp_color = None, pp_completionPercentage = None \<rparr>"

fun single_update :: "project_field \<Rightarrow> project_partial" where
  "single_update (Set_id v) = no_updates\<lparr>pp_id := Some v\<rparr>"
| "single_update (Set_workspaceId v) = no_updates\<lparr>pp_workspaceId := Some v\<rparr>"
| "single_update (Set_userId v) = no_updates\<lparr>pp_userId := Some v\<rparr>"
| "single_update (Set_name v) = no_updates\<lparr>pp_name := Some v\<rparr>"
| "single_update (Set_description v) = no_updates\<lparr>pp_description := Some v\<rparr>"
| "single_update (Set_color v) = no_updates\<lparr>pp_color := Some v\<rparr>"
| "single_update (Set_completionPercentage v) = no_updates\<lparr>pp_completionPercentage := Some v\<rparr>"

fun with_field :: "project_field \<Rightarrow> project_row \<Rightarrow> project_row" where
  "with_field (Set_id v) r = r\<lparr>pr_id := v\<rparr>"
| "with_field (Set_workspaceId v) r = r\<lparr>pr_workspaceId := v\<rparr>"
| "with_field (Set_userId v) r = r\<lparr>pr_userId := v\<rparr>"
| "with_field (Set_name v) r = r\<lparr>pr_name := v\<rparr>"
| "with_field (Set_description v) r = r\<lparr>pr_description := v\<rparr>"
| "with_field (Set_color v) r = r\<lparr>pr_color := v\<rparr>"
| "with_field (Set_completionPercentage v) r = r\<lparr>pr_completionPercentage := v\<rparr>"

text \<open>The update \<^verbatim>\<open>{ id: v }\<close> asks for a key that another row holds.\<close>

fun takes_key_of_other :: "project_field \<Rightarrow> string \<Rightarrow> projects_db \<Rightarrow> bool" where
  "takes_key_of_other (Set_id v) i db = (v \<noteq> i \<and> v \<in> set (map pr_id db))"
| "takes_key_of_other _ i db = False"

section \<open>Task types: rows, domain objects and mappers\<close>

text \<open>The \<^verbatim>\<open>task_types\<close> table of \<^verbatim>\<open>schema.ts\<close> (\<^verbatim>\<open>TaskTypeRow\<close>).\<close>

record task_type_row =
  ttr_id :: string
  ttr_workspaceId :: "string option"
  ttr_userId :: string
  ttr_name :: string
  ttr_icon :: "string option"
  ttr_color :: "string option"
  ttr_isDefault :: bool
  ttr_displayOrder :: int
  ttr_createdAt :: timestamp

record task_type =
  tt_id :: string
  tt_workspaceId :: "string option"
  tt_userId :: string
  tt_name :: string
  tt_icon :: "string option"
  tt_color :: "string option"
  tt_isDefault :: bool
  tt_displayOrder :: int

text \<open>\<^verbatim>\<open>Omit<TaskType, 'id'>\<close> and \<^verbatim>\<open>Omit<NewTaskTypeRow, 'id'>\<close>.\<close>

record task_type_input =
  tti_workspaceId :: "string option"
  tti_userId :: string
  tti_name :: string
  tti_icon :: "string option"
  tti_color :: "string option"
  tti_isDefault :: bool
  tti_displayOrder :: int

record new_task_type_row =
  nttr_workspaceId :: "string option"
  nttr_userId :: string
  nttr_name :: string
  nttr_icon :: "string option"
  nttr_color :: "string option"
  nttr_isDefault :: bool
  nttr_displayOrder :: int
  nttr_createdAt :: timestamp

text \<open>\<^verbatim>\<open>Partial<TaskType>\<close> and \<^verbatim>\<open>Partial<TaskTypeRow>\<close>.\<close>

record task_type_partial =
  ptt_id :: "string option"
  ptt_workspaceId :: "string option option"
  ptt_userId :: "string option"
  ptt_name :: "string option"
  ptt_icon :: "string option option"
  ptt_color :: "string option option"
  ptt_isDefault :: "bool option"
  ptt_displayOrder :: "int option"

record task_type_row_partial =
  pttr_id :: "string option"
  pttr_workspaceId :: "string option option"
  pttr_userId :: "string option"
  pttr_name :: "string option"
  pttr_icon :: "string option option"
  pttr_color :: "string option option"
  pttr_isDefault :: "bool option"
  pttr_displayOrder :: "int option"
  pttr_createdAt :: "timestamp option"

definition taskType_toDomain :: "task_type_row \<Rightarrow> task_type" where
  "taskType_toDomain row =
     \<lparr> tt_id = ttr_id row,
       tt_workspaceId = ttr_workspaceId row,
       tt_userId = ttr_userId row,
       tt_name = ttr_name row,
       tt_icon = ttr_icon row,
       tt_color = ttr_color row,
       tt_isDefault = ttr_isDefault row,
       tt_displayOrder = ttr_displayOrder row \<rparr>"

definition taskType_toDbInsert :: "timestamp \<Rightarrow> task_type_input \<Rightarrow> new_task_type_row" where
  "taskType_toDbInsert timestamp taskType =
     \<lparr> nttr_workspaceId = tti_workspaceId taskType,
       nttr_userId = tti_userId taskType,
       nttr_name = tti_name taskType,
       nttr_icon = tti_icon taskType,
       nttr_color = tti_color taskType,
       nttr_isDefault = tti_isDefault taskType,
       nttr_displayOrder = tti_displayOrder taskType,
       nttr_createdAt = timestamp \<rparr>"

text \<open>\<^verbatim>\<open>return taskType\<close>: the same object, seen at the wider type.\<close>

definition taskType_toDbUpdate :: "task_type_partial \<Rightarrow> task_type_row_partial" where
  "taskType_toDbUpdate taskType =
     \<lparr> pttr_id = ptt_id taskType,
       pttr_workspaceId = ptt_workspaceId taskType,
       pttr_userId = ptt_userId taskType,
       pttr_name = ptt_name taskType,
       pttr_icon = ptt_icon taskType,
       pttr_color = ptt_color taskType,
       pttr_isDefault = ptt_isDefault taskType,
       pttr_displayOrder = ptt_displayOrder taskType,
       pttr_createdAt = None \<rparr>"

section \<open>TaskTypeRepository\<close>

type_synonym task_types_db = "task_type_row list"

text \<open>\<^verbatim>\<open>findById\<close>: task types are not soft-deleted, the condition is the id alone.\<close>

definition taskType_findById :: "task_types_db \<Rightarrow> string \<Rightarrow> task_type option" where
  "taskType_findById db i =
     (case findFirst (\<lambda>r. ttr_id r = i) db of
        None \<Rightarrow> None
      | Some row \<Rightarrow> Some (taskType_toDomain row))"

text \<open>\<^verbatim>\<open>{ id, ...dbTaskType }\<close>: the row handed to \<^verbatim>\<open>insert\<close>.\<close>

definition taskType_insert_row :: "string \<Rightarrow> new_task_type_row \<Rightarrow> task_type_row" where
  "taskType_insert_row i n =
     \<lparr> ttr_id = i,
       ttr_workspaceId = nttr_workspaceId n,
       ttr_userId = nttr_userId n,
       ttr_name = nttr_name n,
       ttr_icon = nttr_icon n,
       ttr_color = nttr_color n,
       ttr_isDefault = nttr_isDefault n,
       ttr_displayOrder = nttr_displayOrder n,
       ttr_createdAt = nttr_createdAt n \<rparr>"

text \<open>\<^verbatim>\<open>create\<close>, with the re-read on the injected handle as an argument, as for projects.\<close>

definition taskType_create_on ::
  "(task_types_db \<Rightarrow> string \<Rightarrow> task_type option) \<Rightarrow> string \<Rightarrow> timestamp \<Rightarrow> task_types_db
     \<Rightarrow> task_type_input \<Rightarrow> (error + task_type) \<times> task_types_db" where
  "taskType_create_on reread new_id ts db taskType =
     (let dbTaskType = taskType_toDbInsert ts taskType
      in case sql_insert ttr_id (taskType_insert_row new_id dbTaskType) db of
           Inl e \<Rightarrow> (Inl e, db)
         | Inr db' \<Rightarrow>
             (case reread db' new_id of
                None \<Rightarrow> (Inl (Error ''Failed to create task type''), db')
              | Some created \<Rightarrow> (Inr created, db')))"

definition taskType_create ::
  "string \<Rightarrow> timestamp \<Rightarrow> task_types_db \<Rightarrow> task_type_input
     \<Rightarrow> (error + task_type) \<times> task_types_db" where
  "taskType_create new_id ts db taskType = taskType_create_on taskType_findById new_id ts db taskType"

text \<open>\<^verbatim>\<open>setDefault\<close>.\<close>

text \<open>
  Two statements in sequence: \<^verbatim>\<open>.set({ isDefault: false }).where(eq(userId, userId))\<close>, then
  \<^verbatim>\<open>.set({ isDefault: true }).where(eq(id, taskTypeId))\<close>. The second runs on the state the
  first left, and only when the first did not raise.
\<close>

definition taskType_setDefault ::
  "task_types_db \<Rightarrow> string \<Rightarrow> string \<Rightarrow> (error + unit) \<times> task_types_db" where
  "taskType_setDefault db userId taskTypeId =
     (case sql_update ttr_id (\<lambda>r. ttr_userId r = userId) (\<lambda>r. r\<lparr>ttr_isDefault := False\<rparr>) db of
        Inl e \<Rightarrow> (Inl e, db)
      | Inr db1 \<Rightarrow>
          (case sql_update ttr_id (\<lambda>r. ttr_id r = taskTypeId) (\<lambda>r. r\<lparr>ttr_isDefault := True\<rparr>) db1 of
             Inl e \<Rightarrow> (Inl e, db1)
           | Inr db2 \<Rightarrow> (Inr (), db2)))"

text \<open>The task types of \<open>u\<close> flagged default: \<^verbatim>\<open>userId = u AND is_default\<close>.\<close>

definition defaults_of :: "string \<Rightarrow> task_types_db \<Rightarrow> task_type_row list" where
  "defaults_of u db = filter (\<lambda>r. ttr_userId r = u \<and> ttr_isDefault r) db"

text \<open>The net effect of the two statements on one row, for \<^verbatim>\<open>setDefault(db, u, t)\<close>.\<close>

definition cleared_then_set :: "string \<Rightarrow> string \<Rightarrow> task_type_row \<Rightarrow> task_type_row" where
  "cleared_then_set u t x =
     (if ttr_id x = t then x\<lparr>ttr_isDefault := True\<rparr>
      else if ttr_userId x = u then x\<lparr>ttr_isDefault := False\<rparr> else x)"

section \<open>The auth backend: SupabaseAuthProvider.signIn\<close>

text \<open>
  The session object of the backend, with the fields \<^verbatim>\<open>mapSession\<close> reads. \<^verbatim>\<open>expires_at\<close> is
  in seconds since the epoch.
\<close>

record sb_user_metadata =
  first_name :: "string option"
  last_name :: "string option"
  avatar_url :: "string option"

record sb_user =
  su_id :: string
  su_email :: "string option"
  su_user_metadata :: "sb_user_metadata option"

record sb_session =
  ss_user :: sb_user
  ss_access_token :: string
  ss_refresh_token :: string
  ss_expires_at :: "int option"

text \<open>What a backend call resolves to: \<^verbatim>\<open>{ data: { session }, error }\<close>.\<close>

record auth_response =
  ar_session :: "sb_session option"
  ar_error :: "string option"

record sign_in_credentials =
  email :: string
  password :: string

record auth_user =
  au_id :: string
  au_email :: "string option"
  au_firstName :: "string option"
  au_lastName :: "string option"
  au_avatarUrl :: "string option"
  au_timezone :: string

text \<open>
  A JavaScript \<^verbatim>\<open>Date\<close>: a time value in milliseconds since the epoch, of magnitude at most
  8.64e15, or the Invalid Date that \<^verbatim>\<open>new Date(v)\<close> gives beyond that range.
\<close>

datatype js_date = Date int | Invalid_Date

definition new_Date :: "int \<Rightarrow> js_date" where
  "new_Date v = (if \<bar>v\<bar> \<le> 8640000000000000 then Date v else Invalid_Date)"

record auth_session =
  as_user :: auth_user
  as_accessToken :: string
  as_refreshToken :: string
  as_expiresAt :: "js_date option"

text \<open>
  \<^verbatim>\<open>session.expires_at ? new Date(session.expires_at * 1000) : undefined\<close>: an absent value and
  \<open>0\<close> are both falsy.
\<close>

definition expires_date :: "int option \<Rightarrow> js_date option" where
  "expires_date expires_at =
     (case expires_at of
        None \<Rightarrow> None
      | Some n \<Rightarrow> if n = 0 then None else Some (new_Date (n * 1000)))"

text \<open>\<^verbatim>\<open>session.user.user_metadata?.f\<close>.\<close>

definition metadata_field ::
  "(sb_user_metadata \<Rightarrow> string option) \<Rightarrow> sb_user_metadata option \<Rightarrow> string option" where
  "metadata_field f m = (case m of None \<Rightarrow> None | Some md \<Rightarrow> f md)"

definition mapSession :: "sb_session \<Rightarrow> auth_session" where
  "mapSession session =
     \<lparr> as_user =
         \<lparr> au_id = su_id (ss_user session),
           au_email = su_email (ss_user session),
           au_firstName = metadata_field first_name (su_user_metadata (ss_user session)),
           au_lastName = metadata_field last_name (su_user_metadata (ss_user session)),
           au_avatarUrl = metadata_field avatar_url (su_user_metadata (ss_user session)),
           au_timezone = '''' \<rparr>,
       as_accessToken = ss_access_token session,
       as_refreshToken = ss_refresh_token session,
       as_expiresAt = expires_date (ss_expires_at session) \<rparr>"

text \<open>
  \<open>signInWithPassword\<close> is the backend call; \<^verbatim>\<open>signIn\<close> passes it the email and the password
  and decides on what it resolves to.
\<close>

definition signIn ::
  "(sign_in_credentials \<Rightarrow> auth_response) \<Rightarrow> sign_in_credentials \<Rightarrow> error + auth_session" where
  "signIn signInWithPassword credentials =
     (let resp = signInWithPassword \<lparr> email = email credentials, password = password credentials \<rparr>
      in case ar_error resp of
           Some e \<Rightarrow> Inl (BackendError e)
         | None \<Rightarrow>
             (case ar_session resp of
                None \<Rightarrow> Inl (Error ''No session returned'')
              | Some s \<Rightarrow> Inr (mapSession s)))"

section \<open>The sync connector: SupabaseConnector\<close>

record powersync_credentials =
  pc_endpoint :: string
  pc_token :: string
  pc_expiresAt :: "js_date option"

text \<open>\<open>powersyncUrl\<close> is the configured endpoint, \<open>getSession\<close> what the lookup resolved to.\<close>

definition fetchCredentials :: "string \<Rightarrow> auth_response \<Rightarrow> error + powersync_credentials option" where
  "fetchCredentials powersyncUrl getSession =
     (case ar_error getSession of
        Some e \<Rightarrow> Inl (BackendError e)
      | None \<Rightarrow>
          (case ar_session getSession of
             None \<Rightarrow> Inr None
           | Some session \<Rightarrow>
               Inr (Some \<lparr> pc_endpoint = powersyncUrl,
                           pc_token = ss_access_token session,
                           pc_expiresAt = expires_date (ss_expires_at session) \<rparr>)))"

text \<open>
  A queued local mutation (\<^verbatim>\<open>CrudEntry\<close>): the operation, the table, the row id and the
  optional column values \<^verbatim>\<open>opData\<close>, an object kept as the list of its properties.
\<close>

datatype update_type = PUT | PATCH | DELETE

datatype json_value = JNull | JBool bool | JNumber int | JString string

type_synonym json_object = "(string \<times> json_value) list"

record crud_entry =
  ce_op :: update_type
  ce_table :: string
  ce_id :: string
  ce_opData :: "json_object option"

text \<open>\<^verbatim>\<open>{ ...record, id: op.id }\<close>: the properties of \<open>record\<close> (none when it is undefined), with
  \<^verbatim>\<open>id\<close> overwritten where it stands, or added at the end.\<close>

fun set_property :: "string \<Rightarrow> json_value \<Rightarrow> json_object \<Rightarrow> json_object" where
  "set_property k v [] = [(k, v)]"
| "set_property k v ((k', v') # ps) =
     (if k' = k then (k, v) # ps else (k', v') # set_property k v ps)"

definition spread_with_id :: "json_object option \<Rightarrow> string \<Rightarrow> json_object" where
  "spread_with_id record i =
     set_property ''id'' (JString i) (case record of None \<Rightarrow> [] | Some ps \<Rightarrow> ps)"

text \<open>
  The three write primitives of the remote store:
  \<^verbatim>\<open>from(table).upsert(values, { onConflict })\<close>, \<^verbatim>\<open>from(table).update(values).eq('id', id)\<close>
  and \<^verbatim>\<open>from(table).delete().eq('id', id)\<close>.
\<close>

datatype remote_call =
    Upsert string json_object string
  | Update string "json_object option" string
  | Delete string string

text \<open>The body of the \<^verbatim>\<open>switch (op.op)\<close>: the remote call one entry is replayed as.\<close>

definition remote_call_of :: "crud_entry \<Rightarrow> remote_call" where
  "remote_call_of op =
     (case ce_op op of
        PUT \<Rightarrow> Upsert (ce_table op) (spread_with_id (ce_opData op) (ce_id op)) ''id''
      | PATCH \<Rightarrow> Update (ce_table op) (ce_opData op) (ce_id op)
      | DELETE \<Rightarrow> Delete (ce_table op) (ce_id op))"

text \<open>
  The remote store is any state \<open>'s\<close> with a function \<open>exec\<close> that performs one call and
  reports \<^verbatim>\<open>{ error }\<close>. The \<^verbatim>\<open>for\<close> loop issues the calls one after the other and leaves at
  the first error (\<^verbatim>\<open>if (error) throw error\<close>). It returns the error if any, the remote
  state, and the trace: each call it issued with what the store reported, in the order of
  issue.
\<close>

type_synonym remote_trace = "(remote_call \<times> string option) list"

fun replay ::
  "('s \<Rightarrow> remote_call \<Rightarrow> string option \<times> 's) \<Rightarrow> crud_entry list \<Rightarrow> 's
     \<Rightarrow> error option \<times> 's \<times> remote_trace" where
  "replay exec [] s = (None, s, [])"
| "replay exec (op # ops) s =
     (case exec s (remote_call_of op) of
        (Some e, s') \<Rightarrow> (Some (BackendError e), s', [(remote_call_of op, Some e)])
      | (None, s') \<Rightarrow>
          (case replay exec ops s' of
             (r, s'', trace) \<Rightarrow> (r, s'', (remote_call_of op, None) # trace)))"

text \<open>
  The local database holds the queue of pending transactions, oldest first:
  \<^verbatim>\<open>getNextCrudTransaction()\<close> returns the first one, or null, and \<^verbatim>\<open>transaction.complete()\<close>
  removes it. \<^verbatim>\<open>uploadData\<close> returns its outcome, the queue and the remote state it leaves,
  and the trace of its remote calls. The \<^verbatim>\<open>catch\<close> block logs and rethrows.
\<close>

record 's upload =
  up_result :: "error + unit"
  up_pending :: "crud_entry list list"
  up_remote :: 's
  up_trace :: remote_trace

definition uploadData ::
  "('s \<Rightarrow> remote_call \<Rightarrow> string option \<times> 's) \<Rightarrow> crud_entry list list \<Rightarrow> 's \<Rightarrow> 's upload" where
  "uploadData exec pending s =
     (case pending of
        [] \<Rightarrow> \<lparr> up_result = Inr (), up_pending = [], up_remote = s, up_trace = [] \<rparr>
      | transaction # rest \<Rightarrow>
          (case replay exec transaction s of
             (Some e, s', trace) \<Rightarrow>
               \<lparr> up_result = Inl e, up_pending = transaction # rest, up_remote = s', up_trace = trace \<rparr>
           | (None, s', trace) \<Rightarrow>
               \<lparr> up_result = Inr (), up_pending = rest, up_remote = s', up_trace = trace \<rparr>))"

text \<open>
  What the specification asks of the replay, said without the loop: the calls of a list
  performed against the store one after the other, each on the state the one before it
  left, with the report of each and the state after the last.
\<close>

fun threaded_run ::
  "('s \<Rightarrow> remote_call \<Rightarrow> string option \<times> 's) \<Rightarrow> remote_call list \<Rightarrow> 's
     \<Rightarrow> string option list \<times> 's" where
  "threaded_run exec [] s = ([], s)"
| "threaded_run exec (c # cs) s =
     (case exec s c of
        (m, s') \<Rightarrow> (case threaded_run exec cs s' of (ms, s'') \<Rightarrow> (m # ms, s'')))"

section \<open>Example data\<close>

text \<open>
  A remote store that keeps the log of the calls it received and rejects every delete,
  and the batch create A, update A, delete A.
\<close>

fun rejecting_deletes :: "remote_call list \<Rightarrow> remote_call \<Rightarrow> string option \<times> remote_call list" where
  "rejecting_deletes log (Delete t i) = (Some ''delete rejected'', log @ [Delete t i])"
| "rejecting_deletes log c = (None, log @ [c])"

definition batch_A :: "crud_entry list" where
  "batch_A =
     [ \<lparr> ce_op = PUT, ce_table = ''projects'', ce_id = ''A'',
         ce_opData = Some [(''name'', JString ''n1'')] \<rparr>,
       \<lparr> ce_op = PATCH, ce_table = ''projects'', ce_id = ''A'',
         ce_opData = Some [(''name'', JString ''n2'')] \<rparr>,
       \<lparr> ce_op = DELETE, ce_table = ''projects'', ce_id = ''A'', ce_opData = None \<rparr> ]"

definition project_A :: project_row where
  "project_A =
     \<lparr> pr_id = ''a'', pr_workspaceId = ''w1'', pr_userId = ''u1'', pr_name = ''Alpha'',
       pr_description = None, pr_color = None, pr_completionPercentage = 0,
       pr_createdAt = ''t0'', pr_updatedAt = ''t0'', pr_deleted = False \<rparr>"

definition project_B :: project_row where
  "project_B =
     \<lparr> pr_id = ''b'', pr_workspaceId = ''w1'', pr_userId = ''u1'', pr_name = ''Beta'',
       pr_description = Some ''second'', pr_color = None, pr_completionPercentage = 40,
       pr_createdAt = ''t0'', pr_updatedAt = ''t0'', pr_deleted = False \<rparr>"

definition project_gone :: project_row where
  "project_gone = project_B\<lparr>pr_id := ''g'', pr_deleted := True\<rparr>"

definition input_C :: project_input where
  "input_C =
     \<lparr> pi_workspaceId = ''w1'', pi_userId = ''u1'', pi_name = ''Gamma'',
       pi_description = None, pi_color = Some ''red'', pi_completionPercentage = 0 \<rparr>"

definition type_1 :: task_type_row where
  "type_1 =
     \<lparr> ttr_id = ''t1'', ttr_workspaceId = None, ttr_userId = ''u'', ttr_name = ''Work'',
       ttr_icon = None, ttr_color = None, ttr_isDefault = True, ttr_displayOrder = 0,
       ttr_createdAt = ''t0'' \<rparr>"

definition type_2 :: task_type_row where
  "type_2 = type_1\<lparr>ttr_id := ''t2'', ttr_name := ''Home'', ttr_isDefault := False\<rparr>"

definition type_3 :: task_type_row where
  "type_3 = type_1\<lparr>ttr_id := ''t3'', ttr_userId := ''v'', ttr_name := ''Gym''\<rparr>"

definition type_4 :: task_type_row where
  "type_4 = type_3\<lparr>ttr_id := ''t4'', ttr_name := ''Read'', ttr_isDefault := False\<rparr>"

definition input_T :: task_type_input where
  "input_T =
     \<lparr> tti_workspaceId = None, tti_userId = ''u'', tti_name = ''Errand'', tti_icon = Some ''cart'',
       tti_color = None, tti_isDefault = False, tti_displayOrder = 3 \<rparr>"

definition session_1 :: sb_session where
  "session_1 =
     \<lparr> ss_user = \<lparr> su_id = ''u1'', su_email = Some ''a@b.c'', su_user_metadata = None \<rparr>,
       ss_access_token = ''tok'', ss_refresh_token = ''ref'', ss_expires_at = Some 1700000000 \<rparr>"

section \<open>Facts about the store\<close>

lemma findFirst_None: "findFirst P xs = None \<longleftrightarrow> (\<forall>x\<in>set xs. \<not> P x)"
  unfolding findFirst_def by (induction xs) auto

lemma findFirst_unique:
  assumes "x \<in> set xs" and "P x" and "\<forall>y\<in>set xs. P y \<longrightarrow> y = x"
  shows "findFirst P xs = Some x"
  using assms
proof (induction xs)
  case Nil
  then show ?case by simp
next
  case (Cons a xs)
  show ?case
  proof (cases "P a")
    case True
    with Cons.prems(3) have "a = x" by simp
    with True show ?thesis by (simp add: findFirst_def)
  next
    case False
    with Cons.prems(1,2) have "x \<in> set xs" by auto
    moreover from Cons.prems(3) have "\<forall>y\<in>set xs. P y \<longrightarrow> y = x" by simp
    ultimately have "findFirst P xs = Some x" using Cons.IH Cons.prems(2) by blast
    with False show ?thesis by (simp add: findFirst_def)
  qed
qed

text \<open>A statement that writes no key is never rejected.\<close>

lemma sql_update_keeps_keys:
  assumes "\<And>r. key (st r) = key r"
  shows "sql_update key wh st rows = Inr (map (\<lambda>r. if wh r then st r else r) rows)"
proof -
  have "map key (map (\<lambda>r. if wh r then st r else r) rows) = map key rows"
    using assms by (induction rows) auto
  then show ?thesis by (simp add: sql_update_def Let_def)
qed

text \<open>Both statements keep the keys of the table distinct.\<close>

lemma sql_insert_keeps_pk:
  assumes "pk_ok key rows" and "sql_insert key row rows = Inr rows'"
  shows "pk_ok key rows'"
  using assms by (auto simp: sql_insert_def pk_ok_def split: if_splits)

lemma sql_update_keeps_pk:
  assumes "pk_ok key rows" and "sql_update key wh st rows = Inr rows'"
  shows "pk_ok key rows'"
proof -
  let ?new = "map (\<lambda>r. if wh r then st r else r) rows"
  from assms(2) have r: "rows' = ?new" and c: "map key ?new = map key rows \<or> distinct (map key ?new)"
    unfolding sql_update_def Let_def by (simp_all split: if_splits)
  from c show ?thesis
  proof
    assume "map key ?new = map key rows"
    with assms(1) show ?thesis unfolding pk_ok_def r by (simp only:)
  next
    assume "distinct (map key ?new)"
    then show ?thesis unfolding pk_ok_def r .
  qed
qed

section \<open>ProjectRepository.delete\<close>

lemma project_set_delete:
  "project_set (project_delete_set ts) r = r\<lparr>pr_updatedAt := ts, pr_deleted := True\<rparr>"
  by (simp add: project_set_def project_delete_set_def)

lemma project_delete_eq:
  "project_delete ts db i =
     (Inr (), map (\<lambda>r. if pr_id r = i then r\<lparr>pr_updatedAt := ts, pr_deleted := True\<rparr> else r) db)"
  by (simp add: project_delete_def sql_update_keeps_keys project_set_delete)

lemma project_delete_findById:
  "project_findById (snd (project_delete ts db i)) i = None"
proof -
  have "findFirst (\<lambda>r. pr_id r = i \<and> pr_deleted r = False)
          (map (\<lambda>r. if pr_id r = i then r\<lparr>pr_updatedAt := ts, pr_deleted := True\<rparr> else r) db) = None"
    unfolding findFirst_def by (induction db) simp_all
  then show ?thesis by (simp add: project_findById_def project_delete_eq)
qed

lemma project_delete_row_by_id:
  "project_row_by_id (snd (project_delete ts db i)) i =
     map_option (\<lambda>r. r\<lparr>pr_updatedAt := ts, pr_deleted := True\<rparr>) (project_row_by_id db i)"
  unfolding project_row_by_id_def project_delete_eq snd_conv findFirst_def
  by (induction db) auto

text \<open>
  Claim C3. After \<^verbatim>\<open>delete(db, id)\<close>, \<^verbatim>\<open>findById(db, id)\<close> returns null, and a project row
  that a query by id alone found before the call is found by the same query after it,
  with \<^verbatim>\<open>deleted\<close> set to true, \<^verbatim>\<open>updatedAt\<close> set to the clock reading and every other column
  as it was. No row is removed: the table has the same keys in the same order.
\<close>

theorem soft_delete_keeps_row:
  "fst (project_delete ts db i) = Inr () \<and>
   project_findById (snd (project_delete ts db i)) i = None \<and>
   (\<forall>row. project_row_by_id db i = Some row \<longrightarrow>
      project_row_by_id (snd (project_delete ts db i)) i =
        Some (row\<lparr>pr_updatedAt := ts, pr_deleted := True\<rparr>)) \<and>
   map pr_id (snd (project_delete ts db i)) = map pr_id db"
proof -
  have "map pr_id (snd (project_delete ts db i)) = map pr_id db"
    unfolding project_delete_eq snd_conv by (induction db) auto
  moreover have "fst (project_delete ts db i) = Inr ()"
    by (simp add: project_delete_eq)
  ultimately show ?thesis
    by (simp add: project_delete_findById project_delete_row_by_id)
qed

theorem soft_delete_keeps_row_witness:
  "project_row_by_id [project_A, project_B] ''a'' = Some project_A \<and>
   project_findById [project_A, project_B] ''a'' = Some (project_toDomain project_A) \<and>
   project_findById (snd (project_delete ''t1'' [project_A, project_B] ''a'')) ''a'' = None \<and>
   project_row_by_id (snd (project_delete ''t1'' [project_A, project_B] ''a'')) ''a'' =
     Some (project_A\<lparr>pr_updatedAt := ''t1'', pr_deleted := True\<rparr>)"
proof -
  have h: "project_row_by_id [project_A, project_B] ''a'' = Some project_A"
    by (simp add: project_row_by_id_def findFirst_def project_A_def)
  have f: "project_findById [project_A, project_B] ''a'' = Some (project_toDomain project_A)"
    by (simp add: project_findById_def findFirst_def project_A_def)
  from soft_delete_keeps_row [of "''t1''" "[project_A, project_B]" "''a''"] h
  have "project_findById (snd (project_delete ''t1'' [project_A, project_B] ''a'')) ''a'' = None"
    and "project_row_by_id (snd (project_delete ''t1'' [project_A, project_B] ''a'')) ''a'' =
     Some (project_A\<lparr>pr_updatedAt := ''t1'', pr_deleted := True\<rparr>)"
    by blast+
  with h f show ?thesis by blast
qed

text \<open>
  Claim C10. \<^verbatim>\<open>ProjectRepository.delete\<close> returns normally for every id, whether it matches
  no row, a live row or a row that is already soft-deleted, and every row whose id differs
  from the argument is left as it was, at the place where it was.
\<close>

theorem project_delete_never_raises:
  "fst (project_delete ts db i) = Inr () \<and>
   length (snd (project_delete ts db i)) = length db \<and>
   (\<forall>k < length db. pr_id (db ! k) \<noteq> i \<longrightarrow> snd (project_delete ts db i) ! k = db ! k)"
  by (simp add: project_delete_eq)

theorem project_delete_never_raises_witness:
  "fst (project_delete ''t1'' [project_A, project_gone] ''zz'') = Inr () \<and>
   fst (project_delete ''t1'' [project_A, project_gone] ''g'') = Inr () \<and>
   pr_id ([project_A, project_gone] ! 0) \<noteq> ''g'' \<and>
   snd (project_delete ''t1'' [project_A, project_gone] ''g'') ! 0 = [project_A, project_gone] ! 0"
proof -
  have h: "pr_id ([project_A, project_gone] ! 0) \<noteq> ''g''"
    by (simp add: project_A_def)
  have l: "0 < length [project_A, project_gone]" by simp
  from project_delete_never_raises [of "''t1''" "[project_A, project_gone]" "''g''"] h l
  have "snd (project_delete ''t1'' [project_A, project_gone] ''g'') ! 0 = [project_A, project_gone] ! 0"
    by blast
  moreover from project_delete_never_raises [of "''t1''" "[project_A, project_gone]" "''zz''"]
  have "fst (project_delete ''t1'' [project_A, project_gone] ''zz'') = Inr ()" by blast
  moreover from project_delete_never_raises [of "''t1''" "[project_A, project_gone]" "''g''"]
  have "fst (project_delete ''t1'' [project_A, project_gone] ''g'') = Inr ()" by blast
  ultimately show ?thesis using h by blast
qed

section \<open>SupabaseConnector.fetchCredentials\<close>

text \<open>
  Claim C6. When the session lookup reports an error, \<^verbatim>\<open>fetchCredentials\<close> raises that error.
  When it reports none and there is no session, the result is null and not an error. When
  it reports none and there is a session, the result is a credential whose token is the
  access token of the session and whose endpoint is the configured one.
\<close>

theorem fetchCredentials_cases:
  "(\<forall>e. ar_error r = Some e \<longrightarrow> fetchCredentials url r = Inl (BackendError e)) \<and>
   (ar_error r = None \<and> ar_session r = None \<longrightarrow> fetchCredentials url r = Inr None) \<and>
   (\<forall>s. ar_error r = None \<and> ar_session r = Some s \<longrightarrow>
      (\<exists>c. fetchCredentials url r = Inr (Some c) \<and>
           pc_token c = ss_access_token s \<and> pc_endpoint c = url))"
  by (simp add: fetchCredentials_def)

theorem fetchCredentials_cases_witness:
  "fetchCredentials ''https://sync'' \<lparr> ar_session = None, ar_error = Some ''network'' \<rparr>
     = Inl (BackendError ''network'') \<and>
   fetchCredentials ''https://sync'' \<lparr> ar_session = None, ar_error = None \<rparr> = Inr None \<and>
   (\<exists>c. fetchCredentials ''https://sync'' \<lparr> ar_session = Some session_1, ar_error = None \<rparr>
          = Inr (Some c) \<and> pc_token c = ss_access_token session_1)"
proof -
  from fetchCredentials_cases [of "\<lparr> ar_session = None, ar_error = Some ''network'' \<rparr>" "''https://sync''"]
  have a: "fetchCredentials ''https://sync'' \<lparr> ar_session = None, ar_error = Some ''network'' \<rparr>
     = Inl (BackendError ''network'')" by simp
  from fetchCredentials_cases [of "\<lparr> ar_session = None, ar_error = None \<rparr>" "''https://sync''"]
  have b: "fetchCredentials ''https://sync'' \<lparr> ar_session = None, ar_error = None \<rparr> = Inr None"
    by simp
  have h: "ar_error \<lparr> ar_session = Some session_1, ar_error = None \<rparr> = None \<and>
           ar_session \<lparr> ar_session = Some session_1, ar_error = None \<rparr> = Some session_1"
    by simp
  from fetchCredentials_cases [of "\<lparr> ar_session = Some session_1, ar_error = None \<rparr>" "''https://sync''"] h
  have c: "\<exists>c. fetchCredentials ''https://sync'' \<lparr> ar_session = Some session_1, ar_error = None \<rparr>
          = Inr (Some c) \<and> pc_token c = ss_access_token session_1"
    by blast
  from a b c show ?thesis by blast
qed

section \<open>SupabaseAuthProvider.signIn\<close>

text \<open>
  Claim C7. \<^verbatim>\<open>signIn\<close> raises exactly when the backend reports an error or reports no
  session: the reported error in the first case, \<^verbatim>\<open>No session returned\<close> in the second.
  Otherwise it returns the mapped session. Its result is an error or a session, never null.
\<close>

lemma signIn_eq:
  "signIn backend c =
     (case ar_error (backend c) of
        Some e \<Rightarrow> Inl (BackendError e)
      | None \<Rightarrow>
          (case ar_session (backend c) of
             None \<Rightarrow> Inl (Error ''No session returned'')
           | Some s \<Rightarrow> Inr (mapSession s)))"
proof -
  have eta: "\<lparr> email = email c, password = password c \<rparr> = c"
    by (cases c) simp
  show ?thesis unfolding signIn_def Let_def eta ..
qed

theorem signIn_fails_in_two_cases:
  "((\<exists>e. signIn backend c = Inl e) \<longleftrightarrow>
      (ar_error (backend c) \<noteq> None \<or> ar_session (backend c) = None)) \<and>
   (\<forall>m. ar_error (backend c) = Some m \<longrightarrow> signIn backend c = Inl (BackendError m)) \<and>
   (ar_error (backend c) = None \<and> ar_session (backend c) = None \<longrightarrow>
      signIn backend c = Inl (Error ''No session returned'')) \<and>
   (\<forall>s. ar_error (backend c) = None \<and> ar_session (backend c) = Some s \<longrightarrow>
      signIn backend c = Inr (mapSession s))"
  by (auto simp: signIn_eq split: option.splits)

theorem signIn_fails_in_two_cases_witness:
  "signIn (\<lambda>c. \<lparr> ar_session = None, ar_error = Some ''bad password'' \<rparr>)
          \<lparr> email = ''a@b.c'', password = ''x'' \<rparr> = Inl (BackendError ''bad password'') \<and>
   signIn (\<lambda>c. \<lparr> ar_session = None, ar_error = None \<rparr>)
          \<lparr> email = ''a@b.c'', password = ''x'' \<rparr> = Inl (Error ''No session returned'') \<and>
   signIn (\<lambda>c. \<lparr> ar_session = Some session_1, ar_error = None \<rparr>)
          \<lparr> email = ''a@b.c'', password = ''x'' \<rparr> = Inr (mapSession session_1)"
proof -
  from signIn_fails_in_two_cases
         [of "\<lambda>c. \<lparr> ar_session = None, ar_error = Some ''bad password'' \<rparr>"
             "\<lparr> email = ''a@b.c'', password = ''x'' \<rparr>"]
  have a: "signIn (\<lambda>c. \<lparr> ar_session = None, ar_error = Some ''bad password'' \<rparr>)
          \<lparr> email = ''a@b.c'', password = ''x'' \<rparr> = Inl (BackendError ''bad password'')"
    by simp
  from signIn_fails_in_two_cases
         [of "\<lambda>c. \<lparr> ar_session = None, ar_error = None \<rparr>"
             "\<lparr> email = ''a@b.c'', password = ''x'' \<rparr>"]
  have b: "signIn (\<lambda>c. \<lparr> ar_session = None, ar_error = None \<rparr>)
          \<lparr> email = ''a@b.c'', password = ''x'' \<rparr> = Inl (Error ''No session returned'')"
    by simp
  from signIn_fails_in_two_cases
         [of "\<lambda>c. \<lparr> ar_session = Some session_1, ar_error = None \<rparr>"
             "\<lparr> email = ''a@b.c'', password = ''x'' \<rparr>"]
  have c: "signIn (\<lambda>c. \<lparr> ar_session = Some session_1, ar_error = None \<rparr>)
          \<lparr> email = ''a@b.c'', password = ''x'' \<rparr> = Inr (mapSession session_1)"
    by simp
  from a b c show ?thesis by blast
qed

section \<open>The mappers\<close>

text \<open>
  Claim C8, as stated, fails: \<^verbatim>\<open>toDbInsert\<close> reads the clock, so two calls on the same input
  at two clock readings return different rows.
\<close>

theorem toDbInsert_depends_on_clock:
  "project_toDbInsert ''2026-01-01T00:00:00.000Z'' input_C \<noteq>
   project_toDbInsert ''2026-01-01T00:00:00.001Z'' input_C"
  by (simp add: project_toDbInsert_def)

text \<open>
  Claim C8, amended. Two calls of \<^verbatim>\<open>toDbInsert\<close>, of either repository, or of the project
  \<^verbatim>\<open>toDbUpdate\<close> on the same input, at the clock readings \<open>t1\<close> and \<open>t2\<close>, return rows that
  agree on every column but the timestamps, and each timestamp column holds the reading of
  its call: the row of the first call is the row of the second with the timestamps set
  to \<open>t1\<close>. The two rows are the same exactly when the two readings are.
\<close>

theorem mappers_agree_up_to_clock:
  "project_toDbInsert t1 p = (project_toDbInsert t2 p)\<lparr>npr_createdAt := t1, npr_updatedAt := t1\<rparr> \<and>
   npr_createdAt (project_toDbInsert t1 p) = t1 \<and>
   npr_updatedAt (project_toDbInsert t1 p) = t1 \<and>
   project_toDbUpdate t1 u = (project_toDbUpdate t2 u)\<lparr>ppr_updatedAt := Some t1\<rparr> \<and>
   ppr_updatedAt (project_toDbUpdate t1 u) = Some t1 \<and>
   taskType_toDbInsert t1 x = (taskType_toDbInsert t2 x)\<lparr>nttr_createdAt := t1\<rparr> \<and>
   nttr_createdAt (taskType_toDbInsert t1 x) = t1 \<and>
   (project_toDbInsert t1 p = project_toDbInsert t2 p) = (t1 = t2) \<and>
   (project_toDbUpdate t1 u = project_toDbUpdate t2 u) = (t1 = t2) \<and>
   (taskType_toDbInsert t1 x = taskType_toDbInsert t2 x) = (t1 = t2)"
  by (simp add: project_toDbInsert_def project_toDbUpdate_def taskType_toDbInsert_def)

section \<open>SupabaseConnector.uploadData\<close>

lemma replay_calls_in_order:
  "replay exec ops s = (r, s', tr) \<Longrightarrow> map fst tr = map remote_call_of (take (length tr) ops)"
proof (induction ops arbitrary: s r s' tr)
  case Nil
  then show ?case by simp
next
  case (Cons op ops)
  obtain m s1 where e: "exec s (remote_call_of op) = (m, s1)" by (cases "exec s (remote_call_of op)")
  show ?case
  proof (cases m)
    case None
    obtain r2 s2 tr2 where rp: "replay exec ops s1 = (r2, s2, tr2)" by (cases "replay exec ops s1")
    with Cons.prems e None have "tr = (remote_call_of op, None) # tr2" by simp
    with Cons.IH [OF rp] show ?thesis by simp
  next
    case (Some a)
    with Cons.prems e show ?thesis by auto
  qed
qed

lemma replay_all_succeeded:
  "replay exec ops s = (r, s', tr) \<Longrightarrow> \<forall>x\<in>set tr. snd x = None \<Longrightarrow> r = None \<and> length tr = length ops"
proof (induction ops arbitrary: s r s' tr)
  case Nil
  then show ?case by simp
next
  case (Cons op ops)
  obtain m s1 where e: "exec s (remote_call_of op) = (m, s1)" by (cases "exec s (remote_call_of op)")
  show ?case
  proof (cases m)
    case None
    obtain r2 s2 tr2 where rp: "replay exec ops s1 = (r2, s2, tr2)" by (cases "replay exec ops s1")
    with Cons.prems(1) e None have t: "tr = (remote_call_of op, None) # tr2" and r: "r = r2" by simp_all
    with Cons.prems(2) have "\<forall>x\<in>set tr2. snd x = None" by simp
    with Cons.IH [OF rp] t r show ?thesis by simp
  next
    case (Some a)
    with Cons.prems e show ?thesis by auto
  qed
qed

lemma replay_failure_is_last:
  "replay exec ops s = (r, s', tr) \<Longrightarrow> (c, Some m) \<in> set tr \<Longrightarrow>
     r = Some (BackendError m) \<and> last tr = (c, Some m)"
proof (induction ops arbitrary: s r s' tr)
  case Nil
  then show ?case by simp
next
  case (Cons op ops)
  obtain m1 s1 where e: "exec s (remote_call_of op) = (m1, s1)" by (cases "exec s (remote_call_of op)")
  show ?case
  proof (cases m1)
    case None
    obtain r2 s2 tr2 where rp: "replay exec ops s1 = (r2, s2, tr2)" by (cases "replay exec ops s1")
    with Cons.prems(1) e None have t: "tr = (remote_call_of op, None) # tr2" and r: "r = r2" by simp_all
    with Cons.prems(2) have in2: "(c, Some m) \<in> set tr2" by simp
    then have "tr2 \<noteq> []" by auto
    with Cons.IH [OF rp in2] t r show ?thesis by simp
  next
    case (Some a)
    with Cons.prems e show ?thesis by auto
  qed
qed

lemma replay_reports_before_last:
  "replay exec ops s = (r, s', tr) \<Longrightarrow> \<forall>x\<in>set (butlast tr). snd x = None"
proof (induction ops arbitrary: s r s' tr)
  case Nil
  then show ?case by simp
next
  case (Cons op ops)
  obtain m1 s1 where e: "exec s (remote_call_of op) = (m1, s1)" by (cases "exec s (remote_call_of op)")
  show ?case
  proof (cases m1)
    case None
    obtain r2 s2 tr2 where rp: "replay exec ops s1 = (r2, s2, tr2)" by (cases "replay exec ops s1")
    with Cons.prems e None have t: "tr = (remote_call_of op, None) # tr2" by simp
    from Cons.IH [OF rp] have "\<forall>x\<in>set (butlast tr2). snd x = None" .
    with t show ?thesis by simp
  next
    case (Some a)
    with Cons.prems e show ?thesis by auto
  qed
qed

lemma replay_is_threaded_run:
  "replay exec ops s = (r, s', tr) \<Longrightarrow> threaded_run exec (map fst tr) s = (map snd tr, s')"
proof (induction ops arbitrary: s r s' tr)
  case Nil
  then show ?case by simp
next
  case (Cons op ops)
  obtain m1 s1 where e: "exec s (remote_call_of op) = (m1, s1)" by (cases "exec s (remote_call_of op)")
  show ?case
  proof (cases m1)
    case None
    obtain r2 s2 tr2 where rp: "replay exec ops s1 = (r2, s2, tr2)" by (cases "replay exec ops s1")
    with Cons.prems e None have t: "tr = (remote_call_of op, None) # tr2" and s2: "s' = s2"
      by simp_all
    from Cons.IH [OF rp] have "threaded_run exec (map fst tr2) s1 = (map snd tr2, s2)" .
    with t s2 e None show ?thesis by simp
  next
    case (Some a)
    with Cons.prems e have "tr = [(remote_call_of op, Some a)]" and "s' = s1" by auto
    with e Some show ?thesis by simp
  qed
qed

lemma uploadData_Cons:
  "replay exec t s = (r, s', tr) \<Longrightarrow>
   uploadData exec (t # rest) s =
     \<lparr> up_result = (case r of None \<Rightarrow> Inr () | Some e \<Rightarrow> Inl e),
       up_pending = (case r of None \<Rightarrow> rest | Some e \<Rightarrow> t # rest),
       up_remote = s', up_trace = tr \<rparr>"
  by (cases r) (simp_all add: uploadData_def)

lemma spread_with_id_has_id: "map_of (spread_with_id record i) ''id'' = Some (JString i)"
proof -
  have "map_of (set_property k v ps) k = Some v" for k v and ps :: json_object
    by (induction ps) auto
  then show ?thesis by (simp add: spread_with_id_def)
qed

text \<open>
  Claim C1. For a pending batch \<open>t\<close>, \<^verbatim>\<open>uploadData\<close> issues the remote calls of the entries
  of \<open>t\<close> in their order, from the first on: an upsert of the values with the id for a
  create, an update by id for an update, a delete by id for a delete. The reports it gets
  and the remote state it leaves are those of performing exactly these calls against the
  store one after the other. No call but the last issued reports an error. When no call
  reports an error, every entry has been replayed and the batch is completed. When a call
  reports an error, it is the last call issued, that error is raised, and the batch is not
  completed: the queue is as it was. With no pending batch nothing is done.
\<close>

theorem uploadData_replays_in_order:
  "map fst (up_trace (uploadData exec (t # rest) s)) =
     map remote_call_of (take (length (up_trace (uploadData exec (t # rest) s))) t) \<and>
   (\<forall>op. remote_call_of op =
      (case ce_op op of
         PUT \<Rightarrow> Upsert (ce_table op) (spread_with_id (ce_opData op) (ce_id op)) ''id''
       | PATCH \<Rightarrow> Update (ce_table op) (ce_opData op) (ce_id op)
       | DELETE \<Rightarrow> Delete (ce_table op) (ce_id op)) \<and>
      map_of (spread_with_id (ce_opData op) (ce_id op)) ''id'' = Some (JString (ce_id op))) \<and>
   threaded_run exec (map fst (up_trace (uploadData exec (t # rest) s))) s =
     (map snd (up_trace (uploadData exec (t # rest) s)), up_remote (uploadData exec (t # rest) s)) \<and>
   (\<forall>x \<in> set (butlast (up_trace (uploadData exec (t # rest) s))). snd x = None) \<and>
   ((\<forall>x \<in> set (up_trace (uploadData exec (t # rest) s)). snd x = None) \<longrightarrow>
      up_result (uploadData exec (t # rest) s) = Inr () \<and>
      up_pending (uploadData exec (t # rest) s) = rest \<and>
      length (up_trace (uploadData exec (t # rest) s)) = length t) \<and>
   (\<forall>c m. (c, Some m) \<in> set (up_trace (uploadData exec (t # rest) s)) \<longrightarrow>
      up_result (uploadData exec (t # rest) s) = Inl (BackendError m) \<and>
      up_pending (uploadData exec (t # rest) s) = t # rest \<and>
      last (up_trace (uploadData exec (t # rest) s)) = (c, Some m)) \<and>
   uploadData exec [] s = \<lparr> up_result = Inr (), up_pending = [], up_remote = s, up_trace = [] \<rparr>"
proof -
  obtain r s' tr where rp: "replay exec t s = (r, s', tr)" by (cases "replay exec t s")
  note u = uploadData_Cons [OF rp, of rest]
  have 1: "map fst (up_trace (uploadData exec (t # rest) s)) =
     map remote_call_of (take (length (up_trace (uploadData exec (t # rest) s))) t)"
    using replay_calls_in_order [OF rp] by (simp add: u)
  have 2: "\<forall>op. remote_call_of op =
      (case ce_op op of
         PUT \<Rightarrow> Upsert (ce_table op) (spread_with_id (ce_opData op) (ce_id op)) ''id''
       | PATCH \<Rightarrow> Update (ce_table op) (ce_opData op) (ce_id op)
       | DELETE \<Rightarrow> Delete (ce_table op) (ce_id op)) \<and>
      map_of (spread_with_id (ce_opData op) (ce_id op)) ''id'' = Some (JString (ce_id op))"
    by (simp add: remote_call_of_def spread_with_id_has_id)
  have 3: "threaded_run exec (map fst (up_trace (uploadData exec (t # rest) s))) s =
     (map snd (up_trace (uploadData exec (t # rest) s)), up_remote (uploadData exec (t # rest) s))"
    using replay_is_threaded_run [OF rp] by (simp add: u)
  have 4: "\<forall>x \<in> set (butlast (up_trace (uploadData exec (t # rest) s))). snd x = None"
    using replay_reports_before_last [OF rp] by (simp add: u)
  have 5: "(\<forall>x \<in> set (up_trace (uploadData exec (t # rest) s)). snd x = None) \<longrightarrow>
      up_result (uploadData exec (t # rest) s) = Inr () \<and>
      up_pending (uploadData exec (t # rest) s) = rest \<and>
      length (up_trace (uploadData exec (t # rest) s)) = length t"
    using replay_all_succeeded [OF rp] by (simp add: u)
  have 6: "\<forall>c m. (c, Some m) \<in> set (up_trace (uploadData exec (t # rest) s)) \<longrightarrow>
      up_result (uploadData exec (t # rest) s) = Inl (BackendError m) \<and>
      up_pending (uploadData exec (t # rest) s) = t # rest \<and>
      last (up_trace (uploadData exec (t # rest) s)) = (c, Some m)"
    using replay_failure_is_last [OF rp] by (simp add: u)
  have 7: "uploadData exec [] s = \<lparr> up_result = Inr (), up_pending = [], up_remote = s, up_trace = [] \<rparr>"
    by (simp add: uploadData_def)
  from 1 2 3 4 5 6 7 show ?thesis by blast
qed

theorem uploadData_replays_in_order_witness:
  "up_trace (uploadData rejecting_deletes [batch_A] []) =
     [ (Upsert ''projects'' [(''name'', JString ''n1''), (''id'', JString ''A'')] ''id'', None),
       (Update ''projects'' (Some [(''name'', JString ''n2'')]) ''A'', None),
       (Delete ''projects'' ''A'', Some ''delete rejected'') ] \<and>
   up_result (uploadData rejecting_deletes [batch_A] []) = Inl (BackendError ''delete rejected'') \<and>
   up_pending (uploadData rejecting_deletes [batch_A] []) = [batch_A] \<and>
   up_remote (uploadData rejecting_deletes [batch_A] []) =
     [ Upsert ''projects'' [(''name'', JString ''n1''), (''id'', JString ''A'')] ''id'',
       Update ''projects'' (Some [(''name'', JString ''n2'')]) ''A'',
       Delete ''projects'' ''A'' ] \<and>
   up_trace (uploadData rejecting_deletes [take 2 batch_A, batch_A] []) =
     [ (Upsert ''projects'' [(''name'', JString ''n1''), (''id'', JString ''A'')] ''id'', None),
       (Update ''projects'' (Some [(''name'', JString ''n2'')]) ''A'', None) ] \<and>
   up_result (uploadData rejecting_deletes [take 2 batch_A, batch_A] []) = Inr () \<and>
   up_pending (uploadData rejecting_deletes [take 2 batch_A, batch_A] []) = [batch_A] \<and>
   up_remote (uploadData rejecting_deletes [take 2 batch_A, batch_A] []) =
     [ Upsert ''projects'' [(''name'', JString ''n1''), (''id'', JString ''A'')] ''id'',
       Update ''projects'' (Some [(''name'', JString ''n2'')]) ''A'' ]"
proof -
  let ?up = "Upsert ''projects'' [(''name'', JString ''n1''), (''id'', JString ''A'')] ''id''"
  let ?pa = "Update ''projects'' (Some [(''name'', JString ''n2'')]) ''A''"
  let ?de = "Delete ''projects'' ''A''"
  have tr1: "up_trace (uploadData rejecting_deletes [batch_A] []) =
     [(?up, None), (?pa, None), (?de, Some ''delete rejected'')]"
    by (simp add: uploadData_def batch_A_def remote_call_of_def spread_with_id_def)
  have tr2: "up_trace (uploadData rejecting_deletes [take 2 batch_A, batch_A] []) =
     [(?up, None), (?pa, None)]"
    by (simp add: uploadData_def batch_A_def remote_call_of_def spread_with_id_def)
  note i1 = uploadData_replays_in_order [of rejecting_deletes batch_A "[]" "[]"]
  note i2 = uploadData_replays_in_order [of rejecting_deletes "take 2 batch_A" "[batch_A]" "[]"]
  have f: "(?de, Some ''delete rejected'') \<in> set (up_trace (uploadData rejecting_deletes [batch_A] []))"
    by (simp add: tr1)
  from i1 f
  have a: "up_result (uploadData rejecting_deletes [batch_A] []) = Inl (BackendError ''delete rejected'')"
    and b: "up_pending (uploadData rejecting_deletes [batch_A] []) = [batch_A]"
    by blast+
  from i1 have "threaded_run rejecting_deletes
                  (map fst (up_trace (uploadData rejecting_deletes [batch_A] []))) [] =
     (map snd (up_trace (uploadData rejecting_deletes [batch_A] [])),
      up_remote (uploadData rejecting_deletes [batch_A] []))"
    by blast
  then have r1: "up_remote (uploadData rejecting_deletes [batch_A] []) = [?up, ?pa, ?de]"
    by (simp add: tr1)
  have ok: "\<forall>x \<in> set (up_trace (uploadData rejecting_deletes [take 2 batch_A, batch_A] [])). snd x = None"
    by (simp add: tr2)
  from i2 ok
  have c: "up_result (uploadData rejecting_deletes [take 2 batch_A, batch_A] []) = Inr ()"
    and d: "up_pending (uploadData rejecting_deletes [take 2 batch_A, batch_A] []) = [batch_A]"
    by blast+
  from i2 have "threaded_run rejecting_deletes
                  (map fst (up_trace (uploadData rejecting_deletes [take 2 batch_A, batch_A] []))) [] =
     (map snd (up_trace (uploadData rejecting_deletes [take 2 batch_A, batch_A] [])),
      up_remote (uploadData rejecting_deletes [take 2 batch_A, batch_A] []))"
    by blast
  then have r2: "up_remote (uploadData rejecting_deletes [take 2 batch_A, batch_A] []) = [?up, ?pa]"
    by (simp add: tr2)
  from tr1 a b r1 tr2 c d r2 show ?thesis by blast
qed

section \<open>create, then findById\<close>

lemma findFirst_appended:
  assumes "\<forall>x\<in>set xs. \<not> P x" and "P row"
  shows "findFirst P (xs @ [row]) = Some row"
  using assms unfolding findFirst_def by (induction xs) simp_all

lemma project_findById_appended:
  assumes "new_id \<notin> set (map pr_id db)" and "pr_id row = new_id" and "pr_deleted row = False"
  shows "project_findById (db @ [row]) new_id = Some (project_toDomain row)"
proof -
  from assms(1) have "\<forall>x\<in>set db. \<not> (pr_id x = new_id \<and> pr_deleted x = False)" by auto
  then have "findFirst (\<lambda>r. pr_id r = new_id \<and> pr_deleted r = False) (db @ [row]) = Some row"
    using assms(2,3) by (intro findFirst_appended) simp_all
  then show ?thesis by (simp add: project_findById_def)
qed

lemma project_create_on_fresh:
  assumes "new_id \<notin> set (map pr_id db)"
  shows "project_create_on reread new_id ts db input =
     (case reread (db @ [project_insert_row new_id (project_toDbInsert ts input)]) new_id of
        None \<Rightarrow> Inl (Error ''Failed to create project'')
      | Some created \<Rightarrow> Inr created,
      db @ [project_insert_row new_id (project_toDbInsert ts input)])"
proof -
  let ?row = "project_insert_row new_id (project_toDbInsert ts input)"
  have "pr_id ?row = new_id" by (simp add: project_insert_row_def)
  with assms have ins: "sql_insert pr_id ?row db = Inr (db @ [?row])"
    by (simp add: sql_insert_def)
  show ?thesis
    unfolding project_create_on_def Let_def ins by (simp split: option.splits)
qed

lemma project_create_on_taken:
  assumes "new_id \<in> set (map pr_id db)"
  shows "project_create_on reread new_id ts db input = (Inl (ConstraintError ''id''), db)"
proof -
  let ?row = "project_insert_row new_id (project_toDbInsert ts input)"
  have "pr_id ?row = new_id" by (simp add: project_insert_row_def)
  with assms have ins: "sql_insert pr_id ?row db = Inl (ConstraintError ''id'')"
    by (simp add: sql_insert_def)
  show ?thesis
    unfolding project_create_on_def Let_def ins by simp
qed

lemma project_created_toDomain:
  "project_toDomain (project_insert_row new_id (project_toDbInsert ts input)) =
     \<lparr> p_id = new_id, p_workspaceId = pi_workspaceId input, p_userId = pi_userId input,
       p_name = pi_name input, p_description = pi_description input,
       p_color = pi_color input, p_completionPercentage = pi_completionPercentage input \<rparr>"
  by (simp add: project_toDomain_def project_insert_row_def project_toDbInsert_def)

lemma project_create_fresh:
  assumes "new_id \<notin> set (map pr_id db)"
  shows "project_create new_id ts db input =
     (Inr \<lparr> p_id = new_id, p_workspaceId = pi_workspaceId input, p_userId = pi_userId input,
            p_name = pi_name input, p_description = pi_description input,
            p_color = pi_color input, p_completionPercentage = pi_completionPercentage input \<rparr>,
      db @ [project_insert_row new_id (project_toDbInsert ts input)])"
    and "project_findById (snd (project_create new_id ts db input)) new_id =
     Some \<lparr> p_id = new_id, p_workspaceId = pi_workspaceId input, p_userId = pi_userId input,
            p_name = pi_name input, p_description = pi_description input,
            p_color = pi_color input, p_completionPercentage = pi_completionPercentage input \<rparr>"
proof -
  let ?row = "project_insert_row new_id (project_toDbInsert ts input)"
  have "pr_id ?row = new_id" and "pr_deleted ?row = False"
    by (simp_all add: project_insert_row_def project_toDbInsert_def)
  from project_findById_appended [OF assms this]
  have fb: "project_findById (db @ [?row]) new_id = Some (project_toDomain ?row)" .
  show 1: "project_create new_id ts db input =
     (Inr \<lparr> p_id = new_id, p_workspaceId = pi_workspaceId input, p_userId = pi_userId input,
            p_name = pi_name input, p_description = pi_description input,
            p_color = pi_color input, p_completionPercentage = pi_completionPercentage input \<rparr>,
      db @ [?row])"
    unfolding project_create_def project_create_on_fresh [OF assms] fb
    by (simp add: project_created_toDomain)
  show "project_findById (snd (project_create new_id ts db input)) new_id =
     Some \<lparr> p_id = new_id, p_workspaceId = pi_workspaceId input, p_userId = pi_userId input,
            p_name = pi_name input, p_description = pi_description input,
            p_color = pi_color input, p_completionPercentage = pi_completionPercentage input \<rparr>"
    unfolding 1 snd_conv fb by (simp add: project_created_toDomain)
qed

lemma taskType_findById_appended:
  assumes "new_id \<notin> set (map ttr_id db)" and "ttr_id row = new_id"
  shows "taskType_findById (db @ [row]) new_id = Some (taskType_toDomain row)"
proof -
  from assms(1) have "\<forall>x\<in>set db. \<not> ttr_id x = new_id" by auto
  then have "findFirst (\<lambda>r. ttr_id r = new_id) (db @ [row]) = Some row"
    using assms(2) by (intro findFirst_appended) simp_all
  then show ?thesis by (simp add: taskType_findById_def)
qed

lemma taskType_create_on_fresh:
  assumes "new_id \<notin> set (map ttr_id db)"
  shows "taskType_create_on reread new_id ts db input =
     (case reread (db @ [taskType_insert_row new_id (taskType_toDbInsert ts input)]) new_id of
        None \<Rightarrow> Inl (Error ''Failed to create task type'')
      | Some created \<Rightarrow> Inr created,
      db @ [taskType_insert_row new_id (taskType_toDbInsert ts input)])"
proof -
  let ?row = "taskType_insert_row new_id (taskType_toDbInsert ts input)"
  have "ttr_id ?row = new_id" by (simp add: taskType_insert_row_def)
  with assms have ins: "sql_insert ttr_id ?row db = Inr (db @ [?row])"
    by (simp add: sql_insert_def)
  show ?thesis
    unfolding taskType_create_on_def Let_def ins by (simp split: option.splits)
qed

lemma taskType_created_toDomain:
  "taskType_toDomain (taskType_insert_row new_id (taskType_toDbInsert ts input)) =
     \<lparr> tt_id = new_id, tt_workspaceId = tti_workspaceId input, tt_userId = tti_userId input,
       tt_name = tti_name input, tt_icon = tti_icon input, tt_color = tti_color input,
       tt_isDefault = tti_isDefault input, tt_displayOrder = tti_displayOrder input \<rparr>"
  by (simp add: taskType_toDomain_def taskType_insert_row_def taskType_toDbInsert_def)

lemma taskType_create_fresh:
  assumes "new_id \<notin> set (map ttr_id db)"
  shows "taskType_create new_id ts db input =
     (Inr \<lparr> tt_id = new_id, tt_workspaceId = tti_workspaceId input, tt_userId = tti_userId input,
            tt_name = tti_name input, tt_icon = tti_icon input, tt_color = tti_color input,
            tt_isDefault = tti_isDefault input, tt_displayOrder = tti_displayOrder input \<rparr>,
      db @ [taskType_insert_row new_id (taskType_toDbInsert ts input)])"
    and "taskType_findById (snd (taskType_create new_id ts db input)) new_id =
     Some \<lparr> tt_id = new_id, tt_workspaceId = tti_workspaceId input, tt_userId = tti_userId input,
            tt_name = tti_name input, tt_icon = tti_icon input, tt_color = tti_color input,
            tt_isDefault = tti_isDefault input, tt_displayOrder = tti_displayOrder input \<rparr>"
proof -
  let ?row = "taskType_insert_row new_id (taskType_toDbInsert ts input)"
  have "ttr_id ?row = new_id" by (simp add: taskType_insert_row_def)
  from taskType_findById_appended [OF assms this]
  have fb: "taskType_findById (db @ [?row]) new_id = Some (taskType_toDomain ?row)" .
  show 1: "taskType_create new_id ts db input =
     (Inr \<lparr> tt_id = new_id, tt_workspaceId = tti_workspaceId input, tt_userId = tti_userId input,
            tt_name = tti_name input, tt_icon = tti_icon input, tt_color = tti_color input,
            tt_isDefault = tti_isDefault input, tt_displayOrder = tti_displayOrder input \<rparr>,
      db @ [?row])"
    unfolding taskType_create_def taskType_create_on_fresh [OF assms] fb
    by (simp add: taskType_created_toDomain)
  show "taskType_findById (snd (taskType_create new_id ts db input)) new_id =
     Some \<lparr> tt_id = new_id, tt_workspaceId = tti_workspaceId input, tt_userId = tti_userId input,
            tt_name = tti_name input, tt_icon = tti_icon input, tt_color = tti_color input,
            tt_isDefault = tti_isDefault input, tt_displayOrder = tti_displayOrder input \<rparr>"
    unfolding 1 snd_conv fb by (simp add: taskType_created_toDomain)
qed

text \<open>
  Claim C4. When \<^verbatim>\<open>generateId()\<close> returns an id that no row holds, \<^verbatim>\<open>create\<close> appends the row
  and returns the domain object made of that id and of the fields of the input, and
  \<^verbatim>\<open>findById\<close> of that id on the resulting table returns the same object; the timestamps are
  not part of it. This holds for projects and for task types. On any handle, when the
  re-read after the insert returns nothing, \<^verbatim>\<open>create\<close> raises its creation-failed error, and
  when it returns an object, \<^verbatim>\<open>create\<close> returns that object: the result is never null. An id
  that is taken makes the insert fail, and nothing is changed.
\<close>

theorem create_then_findById_round_trip:
  "(new_id \<notin> set (map pr_id db) \<longrightarrow>
      project_create new_id ts db input =
        (Inr \<lparr> p_id = new_id, p_workspaceId = pi_workspaceId input, p_userId = pi_userId input,
               p_name = pi_name input, p_description = pi_description input,
               p_color = pi_color input, p_completionPercentage = pi_completionPercentage input \<rparr>,
         db @ [project_insert_row new_id (project_toDbInsert ts input)]) \<and>
      project_findById (snd (project_create new_id ts db input)) new_id =
        Some \<lparr> p_id = new_id, p_workspaceId = pi_workspaceId input, p_userId = pi_userId input,
               p_name = pi_name input, p_description = pi_description input,
               p_color = pi_color input, p_completionPercentage = pi_completionPercentage input \<rparr>) \<and>
   (new_id \<notin> set (map pr_id db) \<and>
    reread (db @ [project_insert_row new_id (project_toDbInsert ts input)]) new_id = None \<longrightarrow>
      project_create_on reread new_id ts db input =
        (Inl (Error ''Failed to create project''),
         db @ [project_insert_row new_id (project_toDbInsert ts input)])) \<and>
   (\<forall>c. new_id \<notin> set (map pr_id db) \<and>
        reread (db @ [project_insert_row new_id (project_toDbInsert ts input)]) new_id = Some c \<longrightarrow>
      project_create_on reread new_id ts db input =
        (Inr c, db @ [project_insert_row new_id (project_toDbInsert ts input)])) \<and>
   (new_id \<in> set (map pr_id db) \<longrightarrow>
      project_create_on reread new_id ts db input = (Inl (ConstraintError ''id''), db)) \<and>
   (tid \<notin> set (map ttr_id tdb) \<longrightarrow>
      taskType_create tid ts tdb tinput =
        (Inr \<lparr> tt_id = tid, tt_workspaceId = tti_workspaceId tinput, tt_userId = tti_userId tinput,
               tt_name = tti_name tinput, tt_icon = tti_icon tinput, tt_color = tti_color tinput,
               tt_isDefault = tti_isDefault tinput, tt_displayOrder = tti_displayOrder tinput \<rparr>,
         tdb @ [taskType_insert_row tid (taskType_toDbInsert ts tinput)]) \<and>
      taskType_findById (snd (taskType_create tid ts tdb tinput)) tid =
        Some \<lparr> tt_id = tid, tt_workspaceId = tti_workspaceId tinput, tt_userId = tti_userId tinput,
               tt_name = tti_name tinput, tt_icon = tti_icon tinput, tt_color = tti_color tinput,
               tt_isDefault = tti_isDefault tinput, tt_displayOrder = tti_displayOrder tinput \<rparr>) \<and>
   (tid \<notin> set (map ttr_id tdb) \<and>
    treread (tdb @ [taskType_insert_row tid (taskType_toDbInsert ts tinput)]) tid = None \<longrightarrow>
      taskType_create_on treread tid ts tdb tinput =
        (Inl (Error ''Failed to create task type''),
         tdb @ [taskType_insert_row tid (taskType_toDbInsert ts tinput)]))"
proof -
  have 1: "new_id \<notin> set (map pr_id db) \<longrightarrow>
      project_create new_id ts db input =
        (Inr \<lparr> p_id = new_id, p_workspaceId = pi_workspaceId input, p_userId = pi_userId input,
               p_name = pi_name input, p_description = pi_description input,
               p_color = pi_color input, p_completionPercentage = pi_completionPercentage input \<rparr>,
         db @ [project_insert_row new_id (project_toDbInsert ts input)]) \<and>
      project_findById (snd (project_create new_id ts db input)) new_id =
        Some \<lparr> p_id = new_id, p_workspaceId = pi_workspaceId input, p_userId = pi_userId input,
               p_name = pi_name input, p_description = pi_description input,
               p_color = pi_color input, p_completionPercentage = pi_completionPercentage input \<rparr>"
    using project_create_fresh [of new_id db ts input] by blast
  have 2: "new_id \<notin> set (map pr_id db) \<and>
    reread (db @ [project_insert_row new_id (project_toDbInsert ts input)]) new_id = None \<longrightarrow>
      project_create_on reread new_id ts db input =
        (Inl (Error ''Failed to create project''),
         db @ [project_insert_row new_id (project_toDbInsert ts input)])"
    by (simp add: project_create_on_fresh)
  have 3: "\<forall>c. new_id \<notin> set (map pr_id db) \<and>
        reread (db @ [project_insert_row new_id (project_toDbInsert ts input)]) new_id = Some c \<longrightarrow>
      project_create_on reread new_id ts db input =
        (Inr c, db @ [project_insert_row new_id (project_toDbInsert ts input)])"
    by (simp add: project_create_on_fresh)
  have 4: "new_id \<in> set (map pr_id db) \<longrightarrow>
      project_create_on reread new_id ts db input = (Inl (ConstraintError ''id''), db)"
    using project_create_on_taken [of new_id db reread ts input] by blast
  have 5: "tid \<notin> set (map ttr_id tdb) \<longrightarrow>
      taskType_create tid ts tdb tinput =
        (Inr \<lparr> tt_id = tid, tt_workspaceId = tti_workspaceId tinput, tt_userId = tti_userId tinput,
               tt_name = tti_name tinput, tt_icon = tti_icon tinput, tt_color = tti_color tinput,
               tt_isDefault = tti_isDefault tinput, tt_displayOrder = tti_displayOrder tinput \<rparr>,
         tdb @ [taskType_insert_row tid (taskType_toDbInsert ts tinput)]) \<and>
      taskType_findById (snd (taskType_create tid ts tdb tinput)) tid =
        Some \<lparr> tt_id = tid, tt_workspaceId = tti_workspaceId tinput, tt_userId = tti_userId tinput,
               tt_name = tti_name tinput, tt_icon = tti_icon tinput, tt_color = tti_color tinput,
               tt_isDefault = tti_isDefault tinput, tt_displayOrder = tti_displayOrder tinput \<rparr>"
    using taskType_create_fresh [of tid tdb ts tinput] by blast
  have 6: "tid \<notin> set (map ttr_id tdb) \<and>
    treread (tdb @ [taskType_insert_row tid (taskType_toDbInsert ts tinput)]) tid = None \<longrightarrow>
      taskType_create_on treread tid ts tdb tinput =
        (Inl (Error ''Failed to create task type''),
         tdb @ [taskType_insert_row tid (taskType_toDbInsert ts tinput)])"
    by (simp add: taskType_create_on_fresh)
  from 1 2 3 4 5 6 show ?thesis by blast
qed

theorem create_then_findById_round_trip_witness:
  "fst (project_create ''c'' ''t1'' [project_A, project_B] input_C) =
     Inr \<lparr> p_id = ''c'', p_workspaceId = ''w1'', p_userId = ''u1'', p_name = ''Gamma'',
           p_description = None, p_color = Some ''red'', p_completionPercentage = 0 \<rparr> \<and>
   project_findById (snd (project_create ''c'' ''t1'' [project_A, project_B] input_C)) ''c'' =
     Some \<lparr> p_id = ''c'', p_workspaceId = ''w1'', p_userId = ''u1'', p_name = ''Gamma'',
            p_description = None, p_color = Some ''red'', p_completionPercentage = 0 \<rparr> \<and>
   fst (project_create_on (\<lambda>db i. None) ''c'' ''t1'' [project_A, project_B] input_C) =
     Inl (Error ''Failed to create project'') \<and>
   fst (project_create_on (\<lambda>db i. Some (project_toDomain project_A)) ''c'' ''t1''
          [project_A, project_B] input_C) = Inr (project_toDomain project_A) \<and>
   project_create_on project_findById ''b'' ''t1'' [project_A, project_B] input_C =
     (Inl (ConstraintError ''id''), [project_A, project_B]) \<and>
   fst (taskType_create ''t9'' ''t1'' [type_1, type_2] input_T) =
     Inr \<lparr> tt_id = ''t9'', tt_workspaceId = None, tt_userId = ''u'', tt_name = ''Errand'',
           tt_icon = Some ''cart'', tt_color = None, tt_isDefault = False, tt_displayOrder = 3 \<rparr> \<and>
   taskType_findById (snd (taskType_create ''t9'' ''t1'' [type_1, type_2] input_T)) ''t9'' =
     Some \<lparr> tt_id = ''t9'', tt_workspaceId = None, tt_userId = ''u'', tt_name = ''Errand'',
            tt_icon = Some ''cart'', tt_color = None, tt_isDefault = False, tt_displayOrder = 3 \<rparr> \<and>
   fst (taskType_create_on (\<lambda>db i. None) ''t9'' ''t1'' [type_1, type_2] input_T) =
     Inl (Error ''Failed to create task type'')"
proof -
  have fresh: "''c'' \<notin> set (map pr_id [project_A, project_B])"
    and taken: "''b'' \<in> set (map pr_id [project_A, project_B])"
    by (simp_all add: project_A_def project_B_def)
  have tfresh: "''t9'' \<notin> set (map ttr_id [type_1, type_2])"
    by (simp add: type_1_def type_2_def)
  note i = create_then_findById_round_trip
             [of "''c''" "[project_A, project_B]" "''t1''" input_C _ "''t9''" "[type_1, type_2]" input_T]
  from i [of "\<lambda>db i. None" "\<lambda>db i. None"] fresh
  have a: "project_create ''c'' ''t1'' [project_A, project_B] input_C =
        (Inr \<lparr> p_id = ''c'', p_workspaceId = pi_workspaceId input_C, p_userId = pi_userId input_C,
               p_name = pi_name input_C, p_description = pi_description input_C,
               p_color = pi_color input_C, p_completionPercentage = pi_completionPercentage input_C \<rparr>,
         [project_A, project_B] @ [project_insert_row ''c'' (project_toDbInsert ''t1'' input_C)])"
    and b: "project_findById (snd (project_create ''c'' ''t1'' [project_A, project_B] input_C)) ''c'' =
        Some \<lparr> p_id = ''c'', p_workspaceId = pi_workspaceId input_C, p_userId = pi_userId input_C,
               p_name = pi_name input_C, p_description = pi_description input_C,
               p_color = pi_color input_C, p_completionPercentage = pi_completionPercentage input_C \<rparr>"
    by blast+
  from i [of "\<lambda>db i. None" "\<lambda>db i. None"] fresh
  have c: "project_create_on (\<lambda>db i. None) ''c'' ''t1'' [project_A, project_B] input_C =
        (Inl (Error ''Failed to create project''),
         [project_A, project_B] @ [project_insert_row ''c'' (project_toDbInsert ''t1'' input_C)])"
    by blast
  from i [of "\<lambda>db i. Some (project_toDomain project_A)" "\<lambda>db i. None"] fresh
  have d: "project_create_on (\<lambda>db i. Some (project_toDomain project_A)) ''c'' ''t1''
             [project_A, project_B] input_C =
        (Inr (project_toDomain project_A),
         [project_A, project_B] @ [project_insert_row ''c'' (project_toDbInsert ''t1'' input_C)])"
    by blast
  from create_then_findById_round_trip
         [of "''b''" "[project_A, project_B]" "''t1''" input_C project_findById] taken
  have e: "project_create_on project_findById ''b'' ''t1'' [project_A, project_B] input_C =
     (Inl (ConstraintError ''id''), [project_A, project_B])"
    by blast
  from i [of "\<lambda>db i. None" "\<lambda>db i. None"] tfresh
  have f: "taskType_create ''t9'' ''t1'' [type_1, type_2] input_T =
        (Inr \<lparr> tt_id = ''t9'', tt_workspaceId = tti_workspaceId input_T, tt_userId = tti_userId input_T,
               tt_name = tti_name input_T, tt_icon = tti_icon input_T, tt_color = tti_color input_T,
               tt_isDefault = tti_isDefault input_T, tt_displayOrder = tti_displayOrder input_T \<rparr>,
         [type_1, type_2] @ [taskType_insert_row ''t9'' (taskType_toDbInsert ''t1'' input_T)])"
    and g: "taskType_findById (snd (taskType_create ''t9'' ''t1'' [type_1, type_2] input_T)) ''t9'' =
        Some \<lparr> tt_id = ''t9'', tt_workspaceId = tti_workspaceId input_T, tt_userId = tti_userId input_T,
               tt_name = tti_name input_T, tt_icon = tti_icon input_T, tt_color = tti_color input_T,
               tt_isDefault = tti_isDefault input_T, tt_displayOrder = tti_displayOrder input_T \<rparr>"
    and h: "taskType_create_on (\<lambda>db i. None) ''t9'' ''t1'' [type_1, type_2] input_T =
        (Inl (Error ''Failed to create task type''),
         [type_1, type_2] @ [taskType_insert_row ''t9'' (taskType_toDbInsert ''t1'' input_T)])"
    by blast+
  from a b c d e f g h show ?thesis by (simp add: input_C_def input_T_def)
qed

section \<open>ProjectRepository.update\<close>

lemma project_set_single:
  "project_set (project_toDbUpdate ts (single_update fu)) r = (with_field fu r)\<lparr>pr_updatedAt := ts\<rparr>"
  by (cases fu) (simp_all add: project_set_def project_toDbUpdate_def no_updates_def)

lemma with_field_deleted: "pr_deleted (with_field fu r) = pr_deleted r"
  by (cases fu) simp_all

lemma with_field_id:
  "pr_id (with_field fu r) = (case fu of Set_id v \<Rightarrow> v | _ \<Rightarrow> pr_id r)"
  by (cases fu) simp_all

lemma pk_row_unique:
  assumes "pk_ok key xs" and "r \<in> set xs" and "x \<in> set xs" and "key x = key r"
  shows "x = r"
proof -
  from assms(1) have "inj_on key (set xs)" by (simp add: pk_ok_def distinct_map)
  with assms(2-4) show ?thesis by (auto dest: inj_onD)
qed

lemma where_id_is_row:
  assumes "pk_ok key xs" and "r \<in> set xs" and "live r"
  shows "map (\<lambda>x. if key x = key r \<and> live x then f x else x) xs =
         map (\<lambda>x. if x = r then f x else x) xs"
proof (rule map_cong [OF refl])
  fix x assume "x \<in> set xs"
  with assms show "(if key x = key r \<and> live x then f x else x) = (if x = r then f x else x)"
    using pk_row_unique [OF assms(1,2)] by auto
qed

lemma replaced_keys:
  assumes "pk_ok key xs" and "r \<in> set xs"
  shows "map key (map (\<lambda>x. if x = r then r' else x) xs) =
         map (\<lambda>k. if k = key r then key r' else k) (map key xs)"
proof -
  have "key (if x = r then r' else x) = (if key x = key r then key r' else key x)"
    if "x \<in> set xs" for x
    using pk_row_unique [OF assms that] by auto
  then show ?thesis by simp
qed

lemma replaced_keys_distinct:
  assumes "pk_ok key xs" and "r \<in> set xs" and "key r' = key r \<or> key r' \<notin> set (map key xs)"
  shows "distinct (map key (map (\<lambda>x. if x = r then r' else x) xs))"
proof -
  have d: "distinct (map key xs)" using assms(1) by (simp add: pk_ok_def)
  have inj: "inj_on (\<lambda>k. if k = key r then key r' else k) (set (map key xs))"
  proof (rule inj_onI)
    fix a b
    assume a: "a \<in> set (map key xs)" and b: "b \<in> set (map key xs)"
      and eq: "(if a = key r then key r' else a) = (if b = key r then key r' else b)"
    from assms(3) show "a = b"
    proof
      assume "key r' = key r"
      with eq show ?thesis by (simp split: if_splits)
    next
      assume "key r' \<notin> set (map key xs)"
      with a b have "a \<noteq> key r'" and "b \<noteq> key r'" by blast+
      with eq show ?thesis by (simp split: if_splits)
    qed
  qed
  from d inj have "distinct (map (\<lambda>k. if k = key r then key r' else k) (map key xs))"
    using distinct_map [of "\<lambda>k. if k = key r then key r' else k" "map key xs"] by blast
  then show ?thesis
    unfolding replaced_keys [OF assms(1,2)] .
qed

lemma replaced_keys_clash:
  assumes "pk_ok key xs" and "r \<in> set xs" and "key r' \<noteq> key r" and "key r' \<in> set (map key xs)"
  shows "\<not> distinct (map key (map (\<lambda>x. if x = r then r' else x) xs))"
    and "map key (map (\<lambda>x. if x = r then r' else x) xs) \<noteq> map key xs"
proof -
  let ?g = "\<lambda>k. if k = key r then key r' else k"
  have kr: "key r \<in> set (map key xs)" using assms(2) by simp
  have "?g (key r) = ?g (key r')" using assms(3) by simp
  then have "inj_on ?g (set (map key xs)) \<Longrightarrow> key r = key r'"
    using kr assms(4) by (rule_tac inj_onD)
  with assms(3) have "\<not> inj_on ?g (set (map key xs))" by auto
  then have "\<not> distinct (map ?g (map key xs))"
    using distinct_map [of ?g "map key xs"] by blast
  then show "\<not> distinct (map key (map (\<lambda>x. if x = r then r' else x) xs))"
    unfolding replaced_keys [OF assms(1,2)] .
  show "map key (map (\<lambda>x. if x = r then r' else x) xs) \<noteq> map key xs"
  proof
    assume "map key (map (\<lambda>x. if x = r then r' else x) xs) = map key xs"
    then have "map ?g (map key xs) = map key xs"
      unfolding replaced_keys [OF assms(1,2)] .
    then have "map ?g (map key xs) = map id (map key xs)"
      by (simp only: list.map_id)
    then have "\<forall>k\<in>set (map key xs). ?g k = id k" by (simp only: map_eq_conv)
    with kr have "?g (key r) = id (key r)" by blast
    with assms(3) show False by simp
  qed
qed

lemma sql_update_eval:
  assumes "map (\<lambda>r. if wh r then st r else r) rows = rows'"
  shows "sql_update key wh st rows =
     (if map key rows' = map key rows \<or> distinct (map key rows') then Inr rows'
      else Inl (ConstraintError ''id''))"
  unfolding sql_update_def Let_def assms ..

lemma project_update_live:
  assumes pk: "pk_ok pr_id db" and r: "r \<in> set db" and i: "pr_id r = i" and live: "\<not> pr_deleted r"
    and ok: "\<not> takes_key_of_other fu i db"
  shows "project_update ts db i (single_update fu) =
     (if pr_id (with_field fu r) = i then Inr (project_toDomain (with_field fu r))
      else Inl (Error ''Project not found or was deleted''),
      map (\<lambda>x. if x = r then (with_field fu r)\<lparr>pr_updatedAt := ts\<rparr> else x) db)"
proof -
  let ?r' = "(with_field fu r)\<lparr>pr_updatedAt := ts\<rparr>"
  let ?db' = "map (\<lambda>x. if x = r then ?r' else x) db"
  have rows: "map (\<lambda>x. if pr_id x = i \<and> pr_deleted x = False
                       then project_set (project_toDbUpdate ts (single_update fu)) x else x) db = ?db'"
    using where_id_is_row [OF pk r, of "\<lambda>x. \<not> pr_deleted x"
                              "project_set (project_toDbUpdate ts (single_update fu))"] live i
    by (simp add: project_set_single)
  have key: "pr_id ?r' = pr_id r \<or> pr_id ?r' \<notin> set (map pr_id db)"
    using ok i by (cases fu) auto
  have "distinct (map pr_id ?db')"
    using replaced_keys_distinct [OF pk r key] .
  then have upd: "sql_update pr_id (\<lambda>r. pr_id r = i \<and> pr_deleted r = False)
                    (project_set (project_toDbUpdate ts (single_update fu))) db = Inr ?db'"
    unfolding sql_update_eval [OF rows] by simp
  have others: "pr_id y \<noteq> i" if "y \<in> set db" and "y \<noteq> r" for y
    using pk_row_unique [OF pk r that(1)] that(2) i by auto
  have mem: "?r' \<in> set ?db'" using r by (auto simp: image_iff)
  have find: "project_findById ?db' i =
     (if pr_id (with_field fu r) = i then Some (project_toDomain (with_field fu r)) else None)"
  proof (cases "pr_id (with_field fu r) = i")
    case True
    have "findFirst (\<lambda>r. pr_id r = i \<and> pr_deleted r = False) ?db' = Some ?r'"
    proof (rule findFirst_unique [OF mem])
      show "pr_id ?r' = i \<and> pr_deleted ?r' = False"
        using True live by (simp add: with_field_deleted)
      show "\<forall>y\<in>set ?db'. pr_id y = i \<and> pr_deleted y = False \<longrightarrow> y = ?r'"
        using others by auto
    qed
    with True show ?thesis by (simp add: project_findById_def project_toDomain_def)
  next
    case False
    have "findFirst (\<lambda>r. pr_id r = i \<and> pr_deleted r = False) ?db' = None"
      unfolding findFirst_None using others False by auto
    with False show ?thesis by (simp add: project_findById_def)
  qed
  show ?thesis
    unfolding project_update_def Let_def upd by (simp add: find)
qed

lemma project_update_clash:
  assumes pk: "pk_ok pr_id db" and r: "r \<in> set db" and i: "pr_id r = i" and live: "\<not> pr_deleted r"
    and clash: "takes_key_of_other fu i db"
  shows "project_update ts db i (single_update fu) = (Inl (ConstraintError ''id''), db)"
proof -
  let ?r' = "(with_field fu r)\<lparr>pr_updatedAt := ts\<rparr>"
  let ?db' = "map (\<lambda>x. if x = r then ?r' else x) db"
  have rows: "map (\<lambda>x. if pr_id x = i \<and> pr_deleted x = False
                       then project_set (project_toDbUpdate ts (single_update fu)) x else x) db = ?db'"
    using where_id_is_row [OF pk r, of "\<lambda>x. \<not> pr_deleted x"
                              "project_set (project_toDbUpdate ts (single_update fu))"] live i
    by (simp add: project_set_single)
  have k1: "pr_id ?r' \<noteq> pr_id r" and k2: "pr_id ?r' \<in> set (map pr_id db)"
    using clash i by (cases fu; simp)+
  have "\<not> distinct (map pr_id ?db')" and "map pr_id ?db' \<noteq> map pr_id db"
    using replaced_keys_clash [OF pk r k1 k2] by blast+
  then have "sql_update pr_id (\<lambda>r. pr_id r = i \<and> pr_deleted r = False)
               (project_set (project_toDbUpdate ts (single_update fu))) db = Inl (ConstraintError ''id'')"
    unfolding sql_update_eval [OF rows] by simp
  then show ?thesis unfolding project_update_def Let_def by simp
qed

lemma project_update_absent:
  assumes "\<forall>x\<in>set db. pr_id x = i \<longrightarrow> pr_deleted x"
  shows "project_update ts db i updates = (Inl (Error ''Project not found or was deleted''), db)"
proof -
  have rows: "map (\<lambda>x. if pr_id x = i \<and> pr_deleted x = False then f x else x) db = db" for f
    using assms by (intro map_idI) auto
  have upd: "sql_update pr_id (\<lambda>r. pr_id r = i \<and> pr_deleted r = False) f db = Inr db" for f
    unfolding sql_update_eval [OF rows] by simp
  have "findFirst (\<lambda>r. pr_id r = i \<and> pr_deleted r = False) db = None"
    unfolding findFirst_None using assms by auto
  then have "project_findById db i = None" by (simp add: project_findById_def)
  then show ?thesis unfolding project_update_def Let_def upd by simp
qed

text \<open>
  Claim C5, as stated, fails for the one-property update \<^verbatim>\<open>{ id: v }\<close> when \<open>v\<close> is the id of
  another row: the primary key rejects the statement, and the live row \<open>a\<close> keeps its id
  and its \<^verbatim>\<open>updatedAt\<close>.
\<close>

theorem update_id_to_taken_key_is_rejected:
  "project_A \<in> set [project_A, project_B] \<and> pr_id project_A = ''a'' \<and> \<not> pr_deleted project_A \<and>
   project_update ''t1'' [project_A, project_B] ''a'' (single_update (Set_id ''b'')) =
     (Inl (ConstraintError ''id''), [project_A, project_B]) \<and>
   snd (project_update ''t1'' [project_A, project_B] ''a'' (single_update (Set_id ''b''))) \<noteq>
     [project_A\<lparr>pr_id := ''b'', pr_updatedAt := ''t1''\<rparr>, project_B]"
  by (simp add: project_update_def sql_update_def Let_def project_set_def project_toDbUpdate_def
      no_updates_def project_A_def project_B_def)

text \<open>
  Claim C5, amended. Let \<open>r\<close> be the live row with id \<open>i\<close> of a table whose keys are
  distinct. A one-property update that does not ask for the id of another row replaces
  \<open>r\<close> by \<open>r\<close> with that one column changed and \<^verbatim>\<open>updatedAt\<close> set to the clock reading; every
  other column of \<open>r\<close> and every other row is as it was, and the updated object is returned
  when the row still has id \<open>i\<close>. A one-property update that asks for the id of another
  row is rejected by the primary key and changes nothing. When no live row has id \<open>i\<close>,
  any update raises \<^verbatim>\<open>Project not found or was deleted\<close> and changes nothing.
\<close>

theorem update_single_field:
  "(pk_ok pr_id db \<and> r \<in> set db \<and> pr_id r = i \<and> \<not> pr_deleted r \<and> \<not> takes_key_of_other fu i db \<longrightarrow>
      project_update ts db i (single_update fu) =
        (if pr_id (with_field fu r) = i then Inr (project_toDomain (with_field fu r))
         else Inl (Error ''Project not found or was deleted''),
         map (\<lambda>x. if x = r then (with_field fu r)\<lparr>pr_updatedAt := ts\<rparr> else x) db)) \<and>
   (pk_ok pr_id db \<and> r \<in> set db \<and> pr_id r = i \<and> \<not> pr_deleted r \<and> takes_key_of_other fu i db \<longrightarrow>
      project_update ts db i (single_update fu) = (Inl (ConstraintError ''id''), db)) \<and>
   ((\<forall>x\<in>set db. pr_id x = i \<longrightarrow> pr_deleted x) \<longrightarrow>
      project_update ts db i updates = (Inl (Error ''Project not found or was deleted''), db))"
  using project_update_live [of db r i fu ts] project_update_clash [of db r i fu ts]
    project_update_absent [of db i ts updates]
  by blast

theorem update_single_field_witness:
  "project_update ''t1'' [project_A, project_B, project_gone] ''a'' (single_update (Set_name ''Renamed'')) =
     (Inr (project_toDomain (project_A\<lparr>pr_name := ''Renamed''\<rparr>)),
      [project_A\<lparr>pr_name := ''Renamed'', pr_updatedAt := ''t1''\<rparr>, project_B, project_gone]) \<and>
   project_update ''t1'' [project_A, project_B, project_gone] ''a'' (single_update (Set_id ''b'')) =
     (Inl (ConstraintError ''id''), [project_A, project_B, project_gone]) \<and>
   project_update ''t1'' [project_A, project_B, project_gone] ''g'' (single_update (Set_name ''Renamed'')) =
     (Inl (Error ''Project not found or was deleted''), [project_A, project_B, project_gone])"
proof -
  let ?db = "[project_A, project_B, project_gone]"
  have pk: "pk_ok pr_id ?db"
    by (simp add: pk_ok_def project_A_def project_B_def project_gone_def)
  have r: "project_A \<in> set ?db \<and> pr_id project_A = ''a'' \<and> \<not> pr_deleted project_A"
    by (simp add: project_A_def)
  have ok: "\<not> takes_key_of_other (Set_name ''Renamed'') ''a'' ?db" by simp
  have clash: "takes_key_of_other (Set_id ''b'') ''a'' ?db"
    by (simp add: project_B_def)
  have gone: "\<forall>x\<in>set ?db. pr_id x = ''g'' \<longrightarrow> pr_deleted x"
    by (simp add: project_A_def project_B_def project_gone_def)
  have ne: "project_B \<noteq> project_A" "project_gone \<noteq> project_A"
    by (simp_all add: project_A_def project_B_def project_gone_def)
  from update_single_field [of ?db project_A "''a''" "Set_name ''Renamed''" "''t1''"] pk r ok
  have 1: "project_update ''t1'' ?db ''a'' (single_update (Set_name ''Renamed'')) =
        (if pr_id (with_field (Set_name ''Renamed'') project_A) = ''a''
         then Inr (project_toDomain (with_field (Set_name ''Renamed'') project_A))
         else Inl (Error ''Project not found or was deleted''),
         map (\<lambda>x. if x = project_A then (with_field (Set_name ''Renamed'') project_A)\<lparr>pr_updatedAt := ''t1''\<rparr> else x) ?db)"
    by blast
  from update_single_field [of ?db project_A "''a''" "Set_id ''b''" "''t1''"] pk r clash
  have 2: "project_update ''t1'' ?db ''a'' (single_update (Set_id ''b'')) = (Inl (ConstraintError ''id''), ?db)"
    by blast
  from update_single_field [of ?db _ "''g''" _ "''t1''" "single_update (Set_name ''Renamed'')"] gone
  have 3: "project_update ''t1'' ?db ''g'' (single_update (Set_name ''Renamed'')) =
     (Inl (Error ''Project not found or was deleted''), ?db)"
    by blast
  from r have "pr_id project_A = ''a''" by blast
  with 1 2 3 ne show ?thesis by simp
qed

section \<open>TaskTypeRepository.setDefault: one default per user\<close>

lemma taskType_setDefault_eq:
  "taskType_setDefault db u t =
     (Inr (), map (\<lambda>x. if ttr_id x = t then x\<lparr>ttr_isDefault := True\<rparr> else x)
                (map (\<lambda>x. if ttr_userId x = u then x\<lparr>ttr_isDefault := False\<rparr> else x) db))"
  by (simp add: taskType_setDefault_def sql_update_keeps_keys)

lemma taskType_setDefault_rows:
  "snd (taskType_setDefault db u t) = map (cleared_then_set u t) db"
  unfolding taskType_setDefault_eq snd_conv map_map
  by (rule map_cong [OF refl]) (simp add: cleared_then_set_def)

lemma cleared_then_set_columns:
  "ttr_id (cleared_then_set u t x) = ttr_id x"
  "ttr_userId (cleared_then_set u t x) = ttr_userId x"
  "ttr_isDefault (cleared_then_set u t x) = (ttr_id x = t \<or> (ttr_userId x \<noteq> u \<and> ttr_isDefault x))"
  by (simp_all add: cleared_then_set_def)

lemma defaults_of_setDefault:
  "defaults_of w (snd (taskType_setDefault db u t)) =
     map (cleared_then_set u t)
       (filter (\<lambda>x. ttr_userId x = w \<and> (ttr_id x = t \<or> (ttr_userId x \<noteq> u \<and> ttr_isDefault x))) db)"
  by (simp add: defaults_of_def taskType_setDefault_rows filter_map comp_def cleared_then_set_columns)

lemma filter_is_row:
  assumes "distinct xs" and "r \<in> set xs"
  shows "filter (\<lambda>x. x = r) xs = [r]"
  using assms
proof (induction xs)
  case Nil
  then show ?case by simp
next
  case (Cons a xs)
  show ?case
  proof (cases "a = r")
    case True
    with Cons.prems(1) have "\<forall>x\<in>set xs. x \<noteq> r" by auto
    then have "filter (\<lambda>x. x = r) xs = []" by (simp add: filter_empty_conv)
    with True show ?thesis by simp
  next
    case False
    with Cons show ?thesis by simp
  qed
qed

lemma pk_distinct_rows: "pk_ok key xs \<Longrightarrow> distinct xs"
  by (simp add: pk_ok_def distinct_map)

lemma setDefault_own_type:
  assumes pk: "pk_ok ttr_id db" and r: "r \<in> set db" and t: "ttr_id r = t" and u: "ttr_userId r = u"
  shows "defaults_of u (snd (taskType_setDefault db u t)) = [r\<lparr>ttr_isDefault := True\<rparr>]"
proof -
  have "filter (\<lambda>x. ttr_userId x = u \<and> (ttr_id x = t \<or> (ttr_userId x \<noteq> u \<and> ttr_isDefault x))) db
        = filter (\<lambda>x. x = r) db"
  proof (rule filter_cong [OF refl])
    fix x assume "x \<in> set db"
    then show "(ttr_userId x = u \<and> (ttr_id x = t \<or> (ttr_userId x \<noteq> u \<and> ttr_isDefault x))) = (x = r)"
      using pk_row_unique [OF pk r] t u by auto
  qed
  also have "\<dots> = [r]" using filter_is_row [OF pk_distinct_rows [OF pk] r] .
  finally show ?thesis
    using t by (simp add: defaults_of_setDefault cleared_then_set_def)
qed

lemma setDefault_clears_others:
  "\<forall>x\<in>set (snd (taskType_setDefault db u t)). ttr_userId x = u \<and> ttr_id x \<noteq> t \<longrightarrow> \<not> ttr_isDefault x"
  by (auto simp: taskType_setDefault_rows cleared_then_set_columns)

lemma setDefault_sets_target:
  "\<forall>x\<in>set (snd (taskType_setDefault db u t)). ttr_id x = t \<longrightarrow> ttr_isDefault x"
  by (auto simp: taskType_setDefault_rows cleared_then_set_columns)

lemma setDefault_foreign_type:
  assumes pk: "pk_ok ttr_id db" and r: "r \<in> set db" and t: "ttr_id r = t" and v: "ttr_userId r = v"
    and vu: "v \<noteq> u" and d: "defaults_of v db = [d]" and dt: "ttr_id d \<noteq> t"
  shows "defaults_of u (snd (taskType_setDefault db u t)) = []"
    and "set (defaults_of v (snd (taskType_setDefault db u t))) = {d, r\<lparr>ttr_isDefault := True\<rparr>}"
    and "length (defaults_of v (snd (taskType_setDefault db u t))) = 2"
proof -
  have own: "x = r" if "x \<in> set db" and "ttr_id x = t" for x
    using pk_row_unique [OF pk r that(1)] that(2) t by simp
  have "set (defaults_of v db) = {d}" using d by simp
  then have dflt: "(x \<in> set db \<and> ttr_userId x = v \<and> ttr_isDefault x) = (x = d)" for x
    by (auto simp: defaults_of_def)
  then have d_in: "d \<in> set db" and d_v: "ttr_userId d = v" by blast+
  have "filter (\<lambda>x. ttr_userId x = u \<and> (ttr_id x = t \<or> (ttr_userId x \<noteq> u \<and> ttr_isDefault x))) db = []"
    unfolding filter_empty_conv using own v vu by blast
  then show "defaults_of u (snd (taskType_setDefault db u t)) = []"
    by (simp add: defaults_of_setDefault)
  have sel: "filter (\<lambda>x. ttr_userId x = v \<and> (ttr_id x = t \<or> (ttr_userId x \<noteq> u \<and> ttr_isDefault x))) db
             = filter (\<lambda>x. x = r \<or> x = d) db"
  proof (rule filter_cong [OF refl])
    fix x assume x: "x \<in> set db"
    show "(ttr_userId x = v \<and> (ttr_id x = t \<or> (ttr_userId x \<noteq> u \<and> ttr_isDefault x))) = (x = r \<or> x = d)"
      using own [OF x] dflt [of x] x v vu t by blast
  qed
  have rd: "r \<noteq> d" using t dt by auto
  have img: "cleared_then_set u t r = r\<lparr>ttr_isDefault := True\<rparr>" "cleared_then_set u t d = d"
    using t dt d_v vu by (simp_all add: cleared_then_set_def)
  have "set (filter (\<lambda>x. x = r \<or> x = d) db) = {r, d}"
    using r d_in by auto
  then show "set (defaults_of v (snd (taskType_setDefault db u t))) = {d, r\<lparr>ttr_isDefault := True\<rparr>}"
    unfolding defaults_of_setDefault sel using img by auto
  have "length (filter (\<lambda>x. x = r \<or> x = d) db) = card ({x. x = r \<or> x = d} \<inter> set db)"
    using distinct_length_filter [OF pk_distinct_rows [OF pk]] .
  also have "{x. x = r \<or> x = d} \<inter> set db = {r, d}" using r d_in by auto
  also have "card {r, d} = 2" using rd by simp
  finally show "length (defaults_of v (snd (taskType_setDefault db u t))) = 2"
    unfolding defaults_of_setDefault sel by simp
qed

text \<open>
  Claim C2. \<^verbatim>\<open>setDefault(db, u, t)\<close> returns normally; it first clears \<^verbatim>\<open>isDefault\<close> on every
  task type of user \<open>u\<close> and then sets it on the row with id \<open>t\<close>. When the keys of the table
  are distinct and \<open>t\<close> is a task type of \<open>u\<close>, the task types of \<open>u\<close> flagged default after
  the call are exactly one row: \<open>t\<close>, otherwise unchanged.
\<close>

theorem setDefault_leaves_exactly_one:
  "fst (taskType_setDefault db u t) = Inr () \<and>
   snd (taskType_setDefault db u t) =
     map (\<lambda>x. if ttr_id x = t then x\<lparr>ttr_isDefault := True\<rparr> else x)
       (map (\<lambda>x. if ttr_userId x = u then x\<lparr>ttr_isDefault := False\<rparr> else x) db) \<and>
   (pk_ok ttr_id db \<and> r \<in> set db \<and> ttr_id r = t \<and> ttr_userId r = u \<longrightarrow>
      defaults_of u (snd (taskType_setDefault db u t)) = [r\<lparr>ttr_isDefault := True\<rparr>])"
  using setDefault_own_type [of db r t u] by (simp add: taskType_setDefault_eq)

theorem setDefault_leaves_exactly_one_witness:
  "pk_ok ttr_id [type_1, type_2, type_3, type_4] \<and>
   type_2 \<in> set [type_1, type_2, type_3, type_4] \<and> ttr_id type_2 = ''t2'' \<and> ttr_userId type_2 = ''u'' \<and>
   defaults_of ''u'' [type_1, type_2, type_3, type_4] = [type_1] \<and>
   defaults_of ''u'' (snd (taskType_setDefault [type_1, type_2, type_3, type_4] ''u'' ''t2'')) =
     [type_2\<lparr>ttr_isDefault := True\<rparr>]"
proof -
  have h: "pk_ok ttr_id [type_1, type_2, type_3, type_4] \<and>
     type_2 \<in> set [type_1, type_2, type_3, type_4] \<and> ttr_id type_2 = ''t2'' \<and> ttr_userId type_2 = ''u''"
    by (simp add: pk_ok_def type_1_def type_2_def type_3_def type_4_def)
  have b: "defaults_of ''u'' [type_1, type_2, type_3, type_4] = [type_1]"
    by (simp add: defaults_of_def type_1_def type_2_def type_3_def type_4_def)
  from setDefault_leaves_exactly_one [of "[type_1, type_2, type_3, type_4]" "''u''" "''t2''" type_2] h
  have "defaults_of ''u'' (snd (taskType_setDefault [type_1, type_2, type_3, type_4] ''u'' ''t2'')) =
     [type_2\<lparr>ttr_isDefault := True\<rparr>]"
    by blast
  with h b show ?thesis by blast
qed

text \<open>
  Claim C9, as stated, fails in its last part: when \<open>t\<close> belongs to another user \<open>v\<close> and
  \<open>t\<close> itself is the default \<open>v\<close> already has, \<open>v\<close> ends with one task type flagged
  default, not two.
\<close>

theorem setDefault_foreign_default_stays_single:
  "ttr_id type_3 = ''t3'' \<and> ttr_userId type_3 = ''v'' \<and> ''v'' \<noteq> ''u'' \<and>
   defaults_of ''v'' [type_1, type_3] = [type_3] \<and>
   defaults_of ''v'' (snd (taskType_setDefault [type_1, type_3] ''u'' ''t3'')) = [type_3] \<and>
   length (defaults_of ''v'' (snd (taskType_setDefault [type_1, type_3] ''u'' ''t3''))) \<noteq> 2"
  by (simp add: taskType_setDefault_eq defaults_of_def type_1_def type_3_def)

text \<open>
  Claim C9, amended. In every state, after \<^verbatim>\<open>setDefault(db, u, t)\<close> every task type of \<open>u\<close> other
  than \<open>t\<close> has \<^verbatim>\<open>isDefault\<close> false and every row with id \<open>t\<close> has it true, whoever owns it.
  When the keys are distinct, \<open>t\<close> belongs to another user \<open>v\<close>, and the one default of \<open>v\<close>
  is a task type \<open>d\<close> other than \<open>t\<close>, then \<open>v\<close> ends with two task types flagged default,
  \<open>d\<close> and \<open>t\<close>, and \<open>u\<close> with none.
\<close>

theorem setDefault_target_not_scoped_to_user:
  "(\<forall>x\<in>set (snd (taskType_setDefault db u t)).
      ttr_userId x = u \<and> ttr_id x \<noteq> t \<longrightarrow> \<not> ttr_isDefault x) \<and>
   (\<forall>x\<in>set (snd (taskType_setDefault db u t)). ttr_id x = t \<longrightarrow> ttr_isDefault x) \<and>
   (pk_ok ttr_id db \<and> r \<in> set db \<and> ttr_id r = t \<and> ttr_userId r = v \<and> v \<noteq> u \<and>
    defaults_of v db = [d] \<and> ttr_id d \<noteq> t \<longrightarrow>
      defaults_of u (snd (taskType_setDefault db u t)) = [] \<and>
      set (defaults_of v (snd (taskType_setDefault db u t))) = {d, r\<lparr>ttr_isDefault := True\<rparr>} \<and>
      length (defaults_of v (snd (taskType_setDefault db u t))) = 2)"
  using setDefault_clears_others [of db u t] setDefault_sets_target [of db u t]
    setDefault_foreign_type [of db r t v u d]
  by blast

theorem setDefault_target_not_scoped_to_user_witness:
  "pk_ok ttr_id [type_1, type_2, type_3, type_4] \<and>
   type_4 \<in> set [type_1, type_2, type_3, type_4] \<and> ttr_id type_4 = ''t4'' \<and> ttr_userId type_4 = ''v'' \<and>
   defaults_of ''v'' [type_1, type_2, type_3, type_4] = [type_3] \<and>
   defaults_of ''u'' [type_1, type_2, type_3, type_4] = [type_1] \<and>
   defaults_of ''u'' (snd (taskType_setDefault [type_1, type_2, type_3, type_4] ''u'' ''t4'')) = [] \<and>
   set (defaults_of ''v'' (snd (taskType_setDefault [type_1, type_2, type_3, type_4] ''u'' ''t4''))) =
     {type_3, type_4\<lparr>ttr_isDefault := True\<rparr>} \<and>
   length (defaults_of ''v'' (snd (taskType_setDefault [type_1, type_2, type_3, type_4] ''u'' ''t4''))) = 2 \<and>
   type_1\<lparr>ttr_isDefault := False\<rparr> \<in> set (snd (taskType_setDefault [type_1, type_2, type_3, type_4] ''u'' ''t4'')) \<and>
   \<not> ttr_isDefault (type_1\<lparr>ttr_isDefault := False\<rparr>) \<and>
   type_4\<lparr>ttr_isDefault := True\<rparr> \<in> set (snd (taskType_setDefault [type_1, type_2, type_3, type_4] ''u'' ''t4'')) \<and>
   ttr_isDefault (type_4\<lparr>ttr_isDefault := True\<rparr>)"
proof -
  let ?db = "[type_1, type_2, type_3, type_4]"
  have h: "pk_ok ttr_id ?db \<and> type_4 \<in> set ?db \<and> ttr_id type_4 = ''t4'' \<and> ttr_userId type_4 = ''v'' \<and>
           ''v'' \<noteq> ''u'' \<and> defaults_of ''v'' ?db = [type_3] \<and> ttr_id type_3 \<noteq> ''t4''"
    by (simp add: pk_ok_def defaults_of_def type_1_def type_2_def type_3_def type_4_def)
  have b: "defaults_of ''u'' ?db = [type_1]"
    by (simp add: defaults_of_def type_1_def type_2_def type_3_def type_4_def)
  have m1: "type_1\<lparr>ttr_isDefault := False\<rparr> \<in> set (snd (taskType_setDefault ?db ''u'' ''t4''))"
    and m4: "type_4\<lparr>ttr_isDefault := True\<rparr> \<in> set (snd (taskType_setDefault ?db ''u'' ''t4''))"
    by (simp_all add: taskType_setDefault_eq type_1_def type_2_def type_3_def type_4_def)
  have k1: "ttr_userId (type_1\<lparr>ttr_isDefault := False\<rparr>) = ''u'' \<and> ttr_id (type_1\<lparr>ttr_isDefault := False\<rparr>) \<noteq> ''t4''"
    and k4: "ttr_id (type_4\<lparr>ttr_isDefault := True\<rparr>) = ''t4''"
    by (simp_all add: type_1_def type_2_def type_3_def type_4_def)
  note inst = setDefault_target_not_scoped_to_user [of ?db "''u''" "''t4''" type_4 "''v''" type_3]
  from inst h have c: "defaults_of ''u'' (snd (taskType_setDefault ?db ''u'' ''t4'')) = [] \<and>
      set (defaults_of ''v'' (snd (taskType_setDefault ?db ''u'' ''t4''))) = {type_3, type_4\<lparr>ttr_isDefault := True\<rparr>} \<and>
      length (defaults_of ''v'' (snd (taskType_setDefault ?db ''u'' ''t4''))) = 2"
    by blast
  from inst m1 k1 have a1: "\<not> ttr_isDefault (type_1\<lparr>ttr_isDefault := False\<rparr>)" by blast
  from inst m4 k4 have a4: "ttr_isDefault (type_4\<lparr>ttr_isDefault := True\<rparr>)" by blast
  from h b c m1 m4 a1 a4 show ?thesis by blast
qed

end
